theory Spec2Isabelle
  imports Complex_Main "HOL-Library.Sublist"
begin

section \<open>Pod queries of the dgraph controller (pkg/controller/dgraph/models/query/pod.go)\<close>

text \<open>
  The Go file builds query texts for the dgraph store, hands them to the dgraph client and
  post-processes the answers. The embedding has three layers, each transcribed from the
  source file:
  \<^item> the query texts, character by character (Go raw string literals keep their tabs and
    line breaks);
  \<^item> the Go functions, with the dgraph client as a parameter and the calls made and the
    messages logged recorded in an explicit state;
  \<^item> the requests that the query texts are the writing of, with the filters and the
    \<open>math(...)\<close> expressions they carry, and what the store computes from them over the
    nodes of a graph.

  Constants, types and library calls that the file uses and other files declare are
  parameters. The two functions of the package that the file calls and does not define,
  \<open>getJSONDataFromQuery\<close> and \<open>createFilterFromListOfLabels\<close>, are modelled from the
  specification and marked so.
\<close>

subsection \<open>Data of the Go side\<close>

text \<open>
  \<open>models.Pod\<close>: the declaration is not part of the file; the fields are the ones the file
  reads (\<open>pod.UID\<close>, \<open>pod.CPUPrice\<close>, \<open>pod.MemoryPrice\<close>) and requests (\<open>name\<close>).
  \<open>float64\<close> is modelled by \<open>real\<close>; a field the decoded answer does not carry keeps Go's zero
  value (\<open>0\<close>, the empty string).
\<close>

record Pod =
  UID :: string
  Name :: string
  CPUPrice :: real
  MemoryPrice :: real

text \<open>
  What the file uses and does not declare is a parameter of the model: the constant \<open>All\<close>
  of the package, the default prices of package \<open>models\<close> (two \<open>float64\<close> values and,
  for storage, a string that is spliced into a query as it is), and the two formatting
  calls of the standard library, \<open>strconv.FormatFloat(x, 'f', 11, 64)\<close> and
  \<open>fmt.Sprintf("%f", x)\<close>.
\<close>

record config =
  All_const :: string
  DefaultCPUCostInFloat64 :: real
  DefaultMemCostInFloat64 :: real
  DefaultStorageCostPerGBPerHour :: string
  FormatFloat_f_11 :: "real \<Rightarrow> string"
  Sprintf_f :: "real \<Rightarrow> string"

text \<open>
  The dgraph client (package \<open>dgraph\<close>, an external collaborator): \<open>ExecuteQueryRaw\<close>
  returns the raw bytes or an error; \<open>ExecuteQuery\<close> decodes the answer into the value its
  second argument points to, here the list of pods of the local \<open>root\<close> struct, or returns
  an error. \<open>ExecuteQueryParent\<close> is \<open>ExecuteQuery\<close> decoding into the parent structure
  that \<open>getJSONDataFromQuery\<close> wraps; \<open>'j\<close> is that structure.
\<close>

datatype error = Error string

record 'j dgraph =
  ExecuteQueryRaw :: "string \<Rightarrow> error + string"
  ExecuteQuery :: "string \<Rightarrow> error + Pod list"
  ExecuteQueryParent :: "string \<Rightarrow> error + 'j"

text \<open>
  The effects of a call: the query texts handed to the client, oldest first, and the
  messages given to \<open>logrus.Errorf\<close>, one constructor for each call site with its
  arguments.
\<close>

datatype log_entry =
    Errorf_interactions string bool error
      \<comment> \<open>"Error while retrieving query for pods interactions. Name: (%v), isOrphan: (%v), error: (%v)"\<close>
  | Errorf_wrong_type_of_query
      \<comment> \<open>"wrong type of query for pod, empty name is given"\<close>
  | Errorf_getJSONDataFromQuery error
      \<comment> \<open>the failure that \<open>getJSONDataFromQuery\<close> logs\<close>

record world =
  calls :: "string list"
  logged :: "log_entry list"

definition call_store :: "string \<Rightarrow> world \<Rightarrow> world" where
  "call_store query w = w\<lparr>calls := calls w @ [query]\<rparr>"

definition Errorf :: "log_entry \<Rightarrow> world \<Rightarrow> world" where
  "Errorf entry w = w\<lparr>logged := logged w @ [entry]\<rparr>"

text \<open>A run-time panic of Go; the only candidate in the file is the index \<open>newRoot.Pods[0]\<close>.\<close>

datatype panic = IndexOutOfRange

definition index_pods :: "Pod list \<Rightarrow> nat \<Rightarrow> panic + Pod" where
  "index_pods pods i = (if i < length pods then Inr (pods ! i) else Inl IndexOutOfRange)"

subsection \<open>Query texts\<close>

text \<open>
  Each text is the Go expression of the source: raw string literals, joined by \<open>+\<close> with
  the spliced values. A line of the literal is written as its tabs followed by its
  characters.
\<close>

abbreviation tab :: char where "tab \<equiv> CHR 0x09"

text \<open>\<open>RetrievePodsInteractions\<close>, lines 32 to 71: the three texts and their selection.\<close>

definition RetrievePodsInteractions_query :: "config \<Rightarrow> string \<Rightarrow> bool \<Rightarrow> string" where
  "RetrievePodsInteractions_query cfg name isOrphan =
    (if name = All_const cfg then
       (if isOrphan then
          ''query {\<newline>'' @
          [tab, tab, tab, tab] @ ''pods(func: has(isPod)) {\<newline>'' @
          [tab, tab, tab, tab, tab] @ ''name\<newline>'' @
          [tab, tab, tab, tab, tab] @ ''outbound: pod {\<newline>'' @
          [tab, tab, tab, tab, tab, tab] @ ''name\<newline>'' @
          [tab, tab, tab, tab, tab] @ ''}\<newline>'' @
          [tab, tab, tab, tab, tab] @ ''inbound: ~pod @filter(has(isPod)) {\<newline>'' @
          [tab, tab, tab, tab, tab, tab] @ ''name\<newline>'' @
          [tab, tab, tab, tab, tab] @ ''}\<newline>'' @
          [tab, tab, tab, tab] @ ''}\<newline>'' @
          [tab, tab, tab] @ ''}''
        else
          ''query {\<newline>'' @
          [tab, tab, tab, tab] @ ''pods(func: has(isPod)) @filter(has(pod)) {\<newline>'' @
          [tab, tab, tab, tab, tab] @ ''name\<newline>'' @
          [tab, tab, tab, tab, tab] @ ''outbound: pod {\<newline>'' @
          [tab, tab, tab, tab, tab, tab] @ ''name\<newline>'' @
          [tab, tab, tab, tab, tab] @ ''}\<newline>'' @
          [tab, tab, tab, tab, tab] @ ''inbound: ~pod @filter(has(isPod)) {\<newline>'' @
          [tab, tab, tab, tab, tab, tab] @ ''name\<newline>'' @
          [tab, tab, tab, tab, tab] @ ''}\<newline>'' @
          [tab, tab, tab, tab] @ ''}\<newline>'' @
          [tab, tab, tab] @ ''}'')
     else
       ''query {\<newline>'' @
       [tab, tab, tab] @ ''pods(func: has(isPod)) @filter(eq(name, \"'' @ name @ ''\")) {\<newline>'' @
       [tab, tab, tab, tab] @ ''name\<newline>'' @
       [tab, tab, tab, tab] @ ''outbound: pod {\<newline>'' @
       [tab, tab, tab, tab, tab] @ ''name\<newline>'' @
       [tab, tab, tab, tab] @ ''}\<newline>'' @
       [tab, tab, tab, tab] @ ''inbound: ~pod @filter(has(isPod)) {\<newline>'' @
       [tab, tab, tab, tab, tab] @ ''name\<newline>'' @
       [tab, tab, tab, tab] @ ''}\<newline>'' @
       [tab, tab, tab] @ ''}\<newline>'' @
       [tab, tab] @ ''}'')"

text \<open>\<open>RetrievePodHierarchy\<close>, lines 87 to 96.\<close>

definition RetrievePodHierarchy_query :: "string \<Rightarrow> string" where
  "RetrievePodHierarchy_query name =
     ''query {\<newline>'' @
     [tab, tab] @ ''parent(func: has(isPod)) @filter(eq(name, \"'' @ name @ ''\")) {\<newline>'' @
     [tab, tab, tab] @ ''name\<newline>'' @
     [tab, tab, tab] @ ''type\<newline>'' @
     [tab, tab, tab] @ ''children: ~pod @filter(has(isContainer)) {\<newline>'' @
     [tab, tab, tab, tab] @ ''name\<newline>'' @
     [tab, tab, tab, tab] @ ''type\<newline>'' @
     [tab, tab, tab] @ ''}\<newline>'' @
     [tab, tab] @ ''}\<newline>'' @
     [tab] @ ''}''"

text \<open>
  \<open>RetrievePodMetrics\<close>, lines 110 to 143. The arguments after the name are the four
  texts the source splices in: \<open>secondsSinceMonthStart\<close>, \<open>cpuPrice\<close>, \<open>memoryPrice\<close> and
  \<open>models.DefaultStorageCostPerGBPerHour\<close>.
\<close>

definition RetrievePodMetrics_query ::
  "string \<Rightarrow> string \<Rightarrow> string \<Rightarrow> string \<Rightarrow> string \<Rightarrow> string" where
  "RetrievePodMetrics_query name secondsSinceMonthStart cpuPrice memoryPrice storagePrice =
     ''query {\<newline>'' @
     [tab, tab] @ ''parent(func: has(isPod)) @filter(eq(name, \"'' @ name @ ''\")) {\<newline>'' @
     [tab, tab, tab] @ ''name\<newline>'' @
     [tab, tab, tab] @ ''type\<newline>'' @
     [tab, tab, tab] @ ''children: ~pod @filter(has(isContainer)) {\<newline>'' @
     [tab, tab, tab, tab] @ ''name\<newline>'' @
     [tab, tab, tab, tab] @ ''type\<newline>'' @
     [tab, tab, tab, tab] @ ''stChild as startTime\<newline>'' @
     [tab, tab, tab, tab] @ ''stSecondsChild as math(since(stChild))\<newline>'' @
     [tab, tab, tab, tab] @ ''secondsSinceStartChild as math(cond(stSecondsChild > '' @
       secondsSinceMonthStart @ '', '' @ secondsSinceMonthStart @ '', stSecondsChild))\<newline>'' @
     [tab, tab, tab, tab] @ ''etChild as endTime\<newline>'' @
     [tab, tab, tab, tab] @ ''isTerminatedChild as count(endTime)\<newline>'' @
     [tab, tab, tab, tab] @ ''secondsSinceEndChild as math(cond(isTerminatedChild == 0, 0.0, since(etChild)))\<newline>'' @
     [tab, tab, tab, tab] @ ''durationInHoursChild as math((secondsSinceStartChild - secondsSinceEndChild) / 3600)\<newline>'' @
     [tab, tab, tab, tab] @ ''cpu: cpu as cpuRequest\<newline>'' @
     [tab, tab, tab, tab] @ ''memory: memory as memoryRequest\<newline>'' @
     [tab, tab, tab, tab] @ ''cpuCost: math(cpu * durationInHoursChild * '' @ cpuPrice @ '')\<newline>'' @
     [tab, tab, tab, tab] @ ''memoryCost: math(memory * durationInHoursChild * '' @ memoryPrice @ '')\<newline>'' @
     [tab, tab, tab] @ ''}\<newline>'' @
     [tab, tab, tab] @ ''cpu: podCpu as cpuRequest\<newline>'' @
     [tab, tab, tab] @ ''memory: podMemory as memoryRequest\<newline>'' @
     [tab, tab, tab] @ ''storage: pvcStorage as storageRequest\<newline>'' @
     [tab, tab, tab] @ ''st as startTime\<newline>'' @
     [tab, tab, tab] @ ''stSeconds as math(since(st))\<newline>'' @
     [tab, tab, tab] @ ''secondsSinceStart as math(cond(stSeconds > '' @
       secondsSinceMonthStart @ '', '' @ secondsSinceMonthStart @ '', stSeconds))\<newline>'' @
     [tab, tab, tab] @ ''et as endTime\<newline>'' @
     [tab, tab, tab] @ ''isTerminated as count(endTime)\<newline>'' @
     [tab, tab, tab] @ ''secondsSinceEnd as math(cond(isTerminated == 0, 0.0, since(et)))\<newline>'' @
     [tab, tab, tab] @ ''durationInHours as math((secondsSinceStart - secondsSinceEnd) / 3600)\<newline>'' @
     [tab, tab, tab] @ ''cpuCost: math(podCpu * durationInHours * '' @ cpuPrice @ '')\<newline>'' @
     [tab, tab, tab] @ ''memoryCost: math(podMemory * durationInHours * '' @ memoryPrice @ '')\<newline>'' @
     [tab, tab, tab] @ ''storageCost: math(pvcStorage * durationInHours * '' @ storagePrice @ '')\<newline>'' @
     [tab, tab] @ ''}\<newline>'' @
     [tab] @ ''}''"

text \<open>\<open>getPricePerResourceForPod\<close>, lines 148 to 153.\<close>

definition getPricePerResourceForPod_query :: "string \<Rightarrow> string" where
  "getPricePerResourceForPod_query name =
     ''query {\<newline>'' @
     [tab, tab] @ ''pod(func: has(isPod)) @filter(eq(name, \"'' @ name @ ''\")) {\<newline>'' @
     [tab, tab, tab] @ ''cpuPrice\<newline>'' @
     [tab, tab, tab] @ ''memoryPrice\<newline>'' @
     [tab, tab] @ ''}\<newline>'' @
     [tab] @ ''}''"

text \<open>\<open>RetrievePodsInteractionsForAllLivePodsWithCount\<close>, lines 168 to 179.\<close>

definition RetrievePodsInteractionsForAllLivePodsWithCount_query :: string where
  "RetrievePodsInteractionsForAllLivePodsWithCount_query =
     ''query {\<newline>'' @
     [tab, tab] @ ''pods(func: has(isPod)) @filter((NOT has(endTime))) {\<newline>'' @
     [tab, tab, tab] @ ''name\<newline>'' @
     [tab, tab, tab] @ ''pod {\<newline>'' @
     [tab, tab, tab, tab] @ ''name\<newline>'' @
     [tab, tab, tab, tab] @ ''count\<newline>'' @
     [tab, tab, tab] @ ''}\<newline>'' @
     [tab, tab, tab] @ ''cid: ~pod @filter(has(isService)) {\<newline>'' @
     [tab, tab, tab, tab] @ ''name\<newline>'' @
     [tab, tab, tab] @ ''}\<newline>'' @
     [tab, tab] @ ''}\<newline>'' @
     [tab] @ ''}''"

text \<open>
  \<open>RetrievePodsUIDsByLabelsFilter\<close>, lines 195 to 205; \<open>labelFilter\<close> is the text that
  \<open>createFilterFromListOfLabels\<close> returned. Line 197 is indented by twelve spaces.
\<close>

definition RetrievePodsUIDsByLabelsFilter_query :: "string \<Rightarrow> string" where
  "RetrievePodsUIDsByLabelsFilter_query labelFilter =
     ''query {\<newline>'' @
     [tab, tab] @ ''var(func: has(isLabel)) @filter('' @ labelFilter @ '') {\<newline>'' @
     ''            podUIDs as ~label @filter(has(isPod)) {\<newline>'' @
     [tab, tab, tab, tab] @ ''name\<newline>'' @
     [tab, tab, tab] @ ''}\<newline>'' @
     [tab, tab] @ ''}\<newline>'' @
     [tab, tab] @ ''pods(func: uid(podUIDs)) {\<newline>'' @
     [tab, tab, tab] @ ''uid\<newline>'' @
     [tab, tab, tab] @ ''name\<newline>'' @
     [tab, tab] @ ''}\<newline>'' @
     [tab] @ ''}''"

subsection \<open>removeDuplicates\<close>

text \<open>
  The loop of \<open>removeDuplicates\<close>: \<open>duplicateChecker\<close> is the Go map, \<open>podsUIDs\<close> the slice
  that \<open>append\<close> extends. A nil slice is the empty list.
\<close>

fun removeDuplicates_loop ::
  "Pod list \<Rightarrow> (string \<rightharpoonup> bool) \<Rightarrow> string list \<Rightarrow> string list" where
  "removeDuplicates_loop [] duplicateChecker podsUIDs = podsUIDs"
| "removeDuplicates_loop (pod # pods) duplicateChecker podsUIDs =
     (case duplicateChecker (UID pod) of
        None \<Rightarrow> removeDuplicates_loop pods
                  (duplicateChecker(UID pod \<mapsto> True)) (podsUIDs @ [UID pod])
      | Some isPresent \<Rightarrow> removeDuplicates_loop pods duplicateChecker podsUIDs)"

definition removeDuplicates :: "Pod list \<Rightarrow> string list" where
  "removeDuplicates pods = removeDuplicates_loop pods Map.empty []"

subsection \<open>The functions that call the store\<close>

text \<open>
  Each function takes the parameters above, its Go arguments and the state, and returns its
  Go result with the new state. A nil slice is the empty list.
\<close>

definition RetrievePodsInteractions ::
  "config \<Rightarrow> 'j dgraph \<Rightarrow> string \<Rightarrow> bool \<Rightarrow> world \<Rightarrow> string \<times> world" where
  "RetrievePodsInteractions cfg dg name isOrphan w =
     (let query = RetrievePodsInteractions_query cfg name isOrphan;
          w1 = call_store query w
      in case ExecuteQueryRaw dg query of
           Inl err \<Rightarrow> ([], Errorf (Errorf_interactions name isOrphan err) w1)
         | Inr result \<Rightarrow> (result, w1))"

text \<open>
  \<open>JSONDataWrapper\<close> is declared in another file of the package; the file only builds its
  zero value, \<open>JSONDataWrapper{}\<close>, which is \<open>None\<close> here, and passes on the wrapper that
  \<open>getJSONDataFromQuery\<close> returns.
\<close>

type_synonym 'j JSONDataWrapper = "'j option"

text \<open>
  Modelled from the spec: \<open>getJSONDataFromQuery\<close> is declared in another file of the
  package. Sections 4.4, 5 and 7 of the specification: the operation issues one request;
  on a store or decode error it logs the failure and returns an empty structure; otherwise
  it returns the decoded structure.
\<close>

definition getJSONDataFromQuery ::
  "'j dgraph \<Rightarrow> string \<Rightarrow> world \<Rightarrow> 'j JSONDataWrapper \<times> world" where
  "getJSONDataFromQuery dg query w =
     (let w1 = call_store query w
      in case ExecuteQueryParent dg query of
           Inl err \<Rightarrow> (None, Errorf (Errorf_getJSONDataFromQuery err) w1)
         | Inr parent \<Rightarrow> (Some parent, w1))"

definition RetrievePodHierarchy ::
  "config \<Rightarrow> 'j dgraph \<Rightarrow> string \<Rightarrow> world \<Rightarrow> 'j JSONDataWrapper \<times> world" where
  "RetrievePodHierarchy cfg dg name w =
     (if name = All_const cfg then (None, Errorf Errorf_wrong_type_of_query w)
      else getJSONDataFromQuery dg (RetrievePodHierarchy_query name) w)"

definition getPricePerResourceForPod ::
  "config \<Rightarrow> 'j dgraph \<Rightarrow> string \<Rightarrow> world \<Rightarrow> (panic + real \<times> real) \<times> world" where
  "getPricePerResourceForPod cfg dg name w =
     (let query = getPricePerResourceForPod_query name;
          w1 = call_store query w
      in case ExecuteQuery dg query of
           Inl err \<Rightarrow> (Inr (DefaultCPUCostInFloat64 cfg, DefaultMemCostInFloat64 cfg), w1)
         | Inr Pods \<Rightarrow>
             if length Pods < 1
             then (Inr (DefaultCPUCostInFloat64 cfg, DefaultMemCostInFloat64 cfg), w1)
             else (case index_pods Pods 0 of
                     Inl p \<Rightarrow> (Inl p, w1)
                   | Inr pod \<Rightarrow> (Inr (CPUPrice pod, MemoryPrice pod), w1)))"

text \<open>
  \<open>RetrievePodMetrics\<close>; \<open>seconds\<close> is what
  \<open>utils.GetSecondsSince(utils.GetCurrentMonthStartTime())\<close> returns during the call.
\<close>

definition RetrievePodMetrics ::
  "config \<Rightarrow> 'j dgraph \<Rightarrow> real \<Rightarrow> string \<Rightarrow> world \<Rightarrow> (panic + 'j JSONDataWrapper) \<times> world" where
  "RetrievePodMetrics cfg dg seconds name w =
     (if name = All_const cfg then (Inr None, Errorf Errorf_wrong_type_of_query w)
      else
        let secondsSinceMonthStart = Sprintf_f cfg seconds
        in case getPricePerResourceForPod cfg dg name w of
             (Inl p, w1) \<Rightarrow> (Inl p, w1)
           | (Inr (cpuPriceInFloat64, memoryPriceInFloat64), w1) \<Rightarrow>
               let cpuPrice = FormatFloat_f_11 cfg cpuPriceInFloat64;
                   memoryPrice = FormatFloat_f_11 cfg memoryPriceInFloat64;
                   query = RetrievePodMetrics_query name secondsSinceMonthStart cpuPrice
                             memoryPrice (DefaultStorageCostPerGBPerHour cfg)
               in case getJSONDataFromQuery dg query w1 of
                    (r, w2) \<Rightarrow> (Inr r, w2))"

definition RetrievePodsInteractionsForAllLivePodsWithCount ::
  "'j dgraph \<Rightarrow> world \<Rightarrow> (error + Pod list) \<times> world" where
  "RetrievePodsInteractionsForAllLivePodsWithCount dg w =
     (let q = RetrievePodsInteractionsForAllLivePodsWithCount_query;
          w1 = call_store q w
      in case ExecuteQuery dg q of
           Inl err \<Rightarrow> (Inl err, w1)
         | Inr Pods \<Rightarrow> (Inr Pods, w1))"

subsection \<open>RetrievePodsUIDsByLabelsFilter\<close>

text \<open>
  Modelled from the spec: \<open>createFilterFromListOfLabels\<close> is declared in another file of
  the package. Section 4.3 (4) of the specification: the predicate combines all provided
  label/value pairs with OR and with nothing else. The model returns the pairs, in the
  order in which the map is walked (the Go map is the association list \<open>labels\<close>), and the
  list is read as the disjunction of its pairs. How the predicate is written in the query
  language is not in the specification: it is the parameter \<open>filter_text\<close>.
\<close>

fun createFilterFromListOfLabels :: "(string \<times> string list) list \<Rightarrow> (string \<times> string) list" where
  "createFilterFromListOfLabels [] = []"
| "createFilterFromListOfLabels ((key, vals) # labels) =
     map (Pair key) vals @ createFilterFromListOfLabels labels"

definition RetrievePodsUIDsByLabelsFilter ::
  "((string \<times> string) list \<Rightarrow> string) \<Rightarrow> 'j dgraph \<Rightarrow> (string \<times> string list) list \<Rightarrow> world
     \<Rightarrow> (error + string list) \<times> world" where
  "RetrievePodsUIDsByLabelsFilter filter_text dg labels w =
     (let labelFilter = filter_text (createFilterFromListOfLabels labels);
          q = RetrievePodsUIDsByLabelsFilter_query labelFilter;
          w1 = call_store q w
      in case ExecuteQuery dg q of
           Inl err \<Rightarrow> (Inl err, w1)
         | Inr Pods \<Rightarrow> (Inr (removeDuplicates Pods), w1))"

subsection \<open>What the query texts ask of the store\<close>

text \<open>
  A node of the graph, with the predicates that the query texts name: \<open>uid\<close>, \<open>name\<close>,
  the type markers \<open>isPod\<close>, \<open>isContainer\<close>, \<open>isLabel\<close>, the edges \<open>pod\<close> and \<open>label\<close>
  (the identifiers of the nodes they lead to), \<open>startTime\<close>, \<open>endTime\<close> (absent while the
  node runs), the three resource requests, and \<open>cpuPrice\<close> and \<open>memoryPrice\<close> (absent
  when no price is recorded for the node). Times are seconds on the store's clock. The
  key and the value of a label node are the two predicates that the label predicate of
  the specification compares.
\<close>

record node =
  node_uid :: string
  node_name :: string
  isPod :: bool
  isContainer :: bool
  isLabel :: bool
  pod_edge :: "string list"
  label_edge :: "string list"
  label_key :: string
  label_value :: string
  startTime :: real
  endTime :: "real option"
  cpuRequest :: real
  memoryRequest :: real
  storageRequest :: real
  node_cpuPrice :: "real option"
  node_memoryPrice :: "real option"

text \<open>
  The requests in the form in which the store reads them. A request is what the texts
  above are the writing of: \<open>render_request\<close> writes a request, tab for tab, and the
  properties below prove for each text of the file that it is the writing of the request
  given for it here. The store reads a text back as that request when what the Go code
  splices into it stays inside its place: a name without a double quote and without a
  backslash (\<open>plain\<close>) between the quotes, a decimal numeral (\<open>read_number\<close>) where a
  number stands.
\<close>

definition plain :: "string \<Rightarrow> bool" where
  "plain s = (CHR 0x22 \<notin> set s \<and> CHR 0x5C \<notin> set s)"

text \<open>Filters: \<open>has(p)\<close>, \<open>eq(p, "v")\<close> and \<open>f OR g\<close>.\<close>

datatype dql_filter =
    FHas string
  | FEq string string
  | FOr dql_filter dql_filter

fun render_filter :: "dql_filter \<Rightarrow> string" where
  "render_filter (FHas p) = ''has('' @ p @ '')''"
| "render_filter (FEq p v) = ''eq('' @ p @ '', \"'' @ v @ ''\")''"
| "render_filter (FOr f g) = render_filter f @ '' OR '' @ render_filter g"

text \<open>
  The expressions inside \<open>math(...)\<close>: a variable, a numeral, \<open>since(v)\<close>,
  \<open>cond(a > b, x, y)\<close> and \<open>cond(a == b, x, y)\<close>, the three operators the file uses, and
  parentheses.
\<close>

datatype rel = Greater | Equal

datatype expr =
    Var string
  | Num string
  | Since string
  | Cond expr rel expr expr expr
  | Minus expr expr
  | Times expr expr
  | Over expr expr
  | Paren expr

fun render_rel :: "rel \<Rightarrow> string" where
  "render_rel Greater = '' > ''"
| "render_rel Equal = '' == ''"

fun render_expr :: "expr \<Rightarrow> string" where
  "render_expr (Var v) = v"
| "render_expr (Num s) = s"
| "render_expr (Since v) = ''since('' @ v @ '')''"
| "render_expr (Cond a r b x y) =
     ''cond('' @ render_expr a @ render_rel r @ render_expr b @ '', '' @ render_expr x @ '', '' @
     render_expr y @ '')''"
| "render_expr (Minus a b) = render_expr a @ '' - '' @ render_expr b"
| "render_expr (Times a b) = render_expr a @ '' * '' @ render_expr b"
| "render_expr (Over a b) = render_expr a @ '' / '' @ render_expr b"
| "render_expr (Paren e) = ''('' @ render_expr e @ '')''"

text \<open>
  The lines of a block: a predicate (\<open>name\<close>), a variable bound to a predicate
  (\<open>st as startTime\<close>), the same under an alias (\<open>cpu: podCpu as cpuRequest\<close>), a variable
  bound to an expression (\<open>v as math(e)\<close>), an expression under an alias (\<open>a: math(e)\<close>), a
  variable bound to a count (\<open>v as count(p)\<close>), and an edge followed under an alias, with
  or without a filter, with the lines asked of the nodes it leads to
  (\<open>children: ~pod @filter(has(isContainer)) { ... }\<close>).
\<close>

datatype item =
    Leaf string
  | As string string
  | AliasAs string string string
  | AsMath string expr
  | AliasMath string expr
  | AsCount string string
  | Edge string string "dql_filter option" "item list"

definition tabs :: "nat \<Rightarrow> string" where
  "tabs d = replicate d tab"

fun render_at_filter :: "dql_filter option \<Rightarrow> string" where
  "render_at_filter None = []"
| "render_at_filter (Some f) = '' @filter('' @ render_filter f @ '')''"

fun render_item :: "nat \<Rightarrow> item \<Rightarrow> string" where
  "render_item d (Leaf p) = tabs d @ p @ ''\<newline>''"
| "render_item d (As v p) = tabs d @ v @ '' as '' @ p @ ''\<newline>''"
| "render_item d (AliasAs a v p) = tabs d @ a @ '': '' @ v @ '' as '' @ p @ ''\<newline>''"
| "render_item d (AsMath v e) = tabs d @ v @ '' as math('' @ render_expr e @ '')\<newline>''"
| "render_item d (AliasMath a e) = tabs d @ a @ '': math('' @ render_expr e @ '')\<newline>''"
| "render_item d (AsCount v p) = tabs d @ v @ '' as count('' @ p @ '')\<newline>''"
| "render_item d (Edge a e f items) =
     tabs d @ a @ '': '' @ e @ render_at_filter f @ '' {\<newline>'' @
     concat (map (render_item (Suc d)) items) @
     tabs d @ ''}\<newline>''"

text \<open>
  A request with one block: the number of tabs before the brace that closes \<open>query {\<close>,
  the alias of the block, its root function, its filter if it has one, and its lines.
\<close>

datatype request = Query nat string dql_filter "dql_filter option" "item list"

fun render_request :: "request \<Rightarrow> string" where
  "render_request (Query d a func f items) =
     ''query {\<newline>'' @
     tabs (Suc d) @ a @ ''(func: '' @ render_filter func @ '')'' @ render_at_filter f @ '' {\<newline>'' @
     concat (map (render_item (Suc (Suc d))) items) @
     tabs (Suc d) @ ''}\<newline>'' @
     tabs d @ ''}''"

fun request_items :: "request \<Rightarrow> item list" where
  "request_items (Query d a func f items) = items"

fun edge_items :: "string \<Rightarrow> item list \<Rightarrow> item list" where
  "edge_items a [] = []"
| "edge_items a (Edge a' e f items # rest) = (if a' = a then items else edge_items a rest)"
| "edge_items a (i # rest) = edge_items a rest"

text \<open>The requests of \<open>RetrievePodsInteractions\<close>, lines 35 to 70.\<close>

definition interactions_items :: "item list" where
  "interactions_items =
     [Leaf ''name'',
      Edge ''outbound'' ''pod'' None [Leaf ''name''],
      Edge ''inbound'' ''~pod'' (Some (FHas ''isPod'')) [Leaf ''name'']]"

definition RetrievePodsInteractions_request :: "config \<Rightarrow> string \<Rightarrow> bool \<Rightarrow> request" where
  "RetrievePodsInteractions_request cfg name isOrphan =
    (if name = All_const cfg then
       (if isOrphan then Query 3 ''pods'' (FHas ''isPod'') None interactions_items
        else Query 3 ''pods'' (FHas ''isPod'') (Some (FHas ''pod'')) interactions_items)
     else Query 2 ''pods'' (FHas ''isPod'') (Some (FEq ''name'' name)) interactions_items)"

text \<open>The request of \<open>getPricePerResourceForPod\<close>, lines 148 to 153.\<close>

definition getPricePerResourceForPod_request :: "string \<Rightarrow> request" where
  "getPricePerResourceForPod_request name =
     Query 1 ''pod'' (FHas ''isPod'') (Some (FEq ''name'' name))
       [Leaf ''cpuPrice'', Leaf ''memoryPrice'']"

text \<open>
  The request of \<open>RetrievePodMetrics\<close>, lines 110 to 143: the lines asked of each child,
  the lines asked of the parent after them, and the whole.
\<close>

definition RetrievePodMetrics_children_items :: "string \<Rightarrow> string \<Rightarrow> string \<Rightarrow> item list" where
  "RetrievePodMetrics_children_items secondsSinceMonthStart cpuPrice memoryPrice =
     [Leaf ''name'',
      Leaf ''type'',
      As ''stChild'' ''startTime'',
      AsMath ''stSecondsChild'' (Since ''stChild''),
      AsMath ''secondsSinceStartChild''
        (Cond (Var ''stSecondsChild'') Greater (Num secondsSinceMonthStart)
           (Num secondsSinceMonthStart) (Var ''stSecondsChild'')),
      As ''etChild'' ''endTime'',
      AsCount ''isTerminatedChild'' ''endTime'',
      AsMath ''secondsSinceEndChild''
        (Cond (Var ''isTerminatedChild'') Equal (Num ''0'') (Num ''0.0'') (Since ''etChild'')),
      AsMath ''durationInHoursChild''
        (Over (Paren (Minus (Var ''secondsSinceStartChild'') (Var ''secondsSinceEndChild'')))
           (Num ''3600'')),
      AliasAs ''cpu'' ''cpu'' ''cpuRequest'',
      AliasAs ''memory'' ''memory'' ''memoryRequest'',
      AliasMath ''cpuCost''
        (Times (Times (Var ''cpu'') (Var ''durationInHoursChild'')) (Num cpuPrice)),
      AliasMath ''memoryCost''
        (Times (Times (Var ''memory'') (Var ''durationInHoursChild'')) (Num memoryPrice))]"

definition RetrievePodMetrics_parent_items ::
  "string \<Rightarrow> string \<Rightarrow> string \<Rightarrow> string \<Rightarrow> item list" where
  "RetrievePodMetrics_parent_items secondsSinceMonthStart cpuPrice memoryPrice storagePrice =
     [AliasAs ''cpu'' ''podCpu'' ''cpuRequest'',
      AliasAs ''memory'' ''podMemory'' ''memoryRequest'',
      AliasAs ''storage'' ''pvcStorage'' ''storageRequest'',
      As ''st'' ''startTime'',
      AsMath ''stSeconds'' (Since ''st''),
      AsMath ''secondsSinceStart''
        (Cond (Var ''stSeconds'') Greater (Num secondsSinceMonthStart)
           (Num secondsSinceMonthStart) (Var ''stSeconds'')),
      As ''et'' ''endTime'',
      AsCount ''isTerminated'' ''endTime'',
      AsMath ''secondsSinceEnd''
        (Cond (Var ''isTerminated'') Equal (Num ''0'') (Num ''0.0'') (Since ''et'')),
      AsMath ''durationInHours''
        (Over (Paren (Minus (Var ''secondsSinceStart'') (Var ''secondsSinceEnd'')))
           (Num ''3600'')),
      AliasMath ''cpuCost''
        (Times (Times (Var ''podCpu'') (Var ''durationInHours'')) (Num cpuPrice)),
      AliasMath ''memoryCost''
        (Times (Times (Var ''podMemory'') (Var ''durationInHours'')) (Num memoryPrice)),
      AliasMath ''storageCost''
        (Times (Times (Var ''pvcStorage'') (Var ''durationInHours'')) (Num storagePrice))]"

definition RetrievePodMetrics_request ::
  "string \<Rightarrow> string \<Rightarrow> string \<Rightarrow> string \<Rightarrow> string \<Rightarrow> request" where
  "RetrievePodMetrics_request name secondsSinceMonthStart cpuPrice memoryPrice storagePrice =
     Query 1 ''parent'' (FHas ''isPod'') (Some (FEq ''name'' name))
       ([Leaf ''name'',
         Leaf ''type'',
         Edge ''children'' ''~pod'' (Some (FHas ''isContainer''))
           (RetrievePodMetrics_children_items secondsSinceMonthStart cpuPrice memoryPrice)] @
        RetrievePodMetrics_parent_items secondsSinceMonthStart cpuPrice memoryPrice storagePrice)"

text \<open>
  What the store computes from a request. A value is a number or a text; \<open>attr\<close> gives a
  node's value of a predicate, if it has one, and \<open>has_predicate\<close> says whether the node
  has a value or an edge for it.
\<close>

datatype val = Number real | Text string

definition attr :: "node \<Rightarrow> string \<Rightarrow> val option" where
  "attr n p =
     (if p = ''uid'' then Some (Text (node_uid n))
      else if p = ''name'' then Some (Text (node_name n))
      else if p = ''startTime'' then Some (Number (startTime n))
      else if p = ''endTime'' then map_option Number (endTime n)
      else if p = ''cpuRequest'' then Some (Number (cpuRequest n))
      else if p = ''memoryRequest'' then Some (Number (memoryRequest n))
      else if p = ''storageRequest'' then Some (Number (storageRequest n))
      else if p = ''cpuPrice'' then map_option Number (node_cpuPrice n)
      else if p = ''memoryPrice'' then map_option Number (node_memoryPrice n)
      else None)"

definition has_predicate :: "node \<Rightarrow> string \<Rightarrow> bool" where
  "has_predicate n p =
     (if p = ''isPod'' then isPod n
      else if p = ''isContainer'' then isContainer n
      else if p = ''isLabel'' then isLabel n
      else if p = ''pod'' then pod_edge n \<noteq> []
      else if p = ''label'' then label_edge n \<noteq> []
      else attr n p \<noteq> None)"

definition count_of :: "node \<Rightarrow> string \<Rightarrow> nat" where
  "count_of n p =
     (if p = ''pod'' then length (pod_edge n)
      else if p = ''label'' then length (label_edge n)
      else if has_predicate n p then 1 else 0)"

fun holds :: "node \<Rightarrow> dql_filter \<Rightarrow> bool" where
  "holds n (FHas p) = has_predicate n p"
| "holds n (FEq p v) = (attr n p = Some (Text v))"
| "holds n (FOr f g) = (holds n f \<or> holds n g)"

text \<open>
  The root of a block, \<open>alias(func: F) @filter(G)\<close>, selects the nodes of which \<open>F\<close> and
  \<open>G\<close> hold; without \<open>@filter\<close>, those of which \<open>F\<close> holds.
\<close>

fun selects :: "request \<Rightarrow> node \<Rightarrow> bool" where
  "selects (Query d a func f items) n =
     (holds n func \<and> (case f of None \<Rightarrow> True | Some g \<Rightarrow> holds n g))"

text \<open>
  The selection of the request that \<open>RetrievePodsInteractions\<close> builds. It is given for the
  wildcard target and for the plain names; for another name the text that line 61 builds
  is not read as a comparison with that name, and the selection is not given.
\<close>

definition RetrievePodsInteractions_selects ::
  "config \<Rightarrow> string \<Rightarrow> bool \<Rightarrow> node \<Rightarrow> bool option" where
  "RetrievePodsInteractions_selects cfg name isOrphan n =
     (if name = All_const cfg \<or> plain name
      then Some (selects (RetrievePodsInteractions_request cfg name isOrphan) n)
      else None)"

text \<open>
  Decimal numerals: digits, with or without a point and more digits, with or without a
  minus sign before them. Anything else is not a number.
\<close>

definition is_digit :: "char \<Rightarrow> bool" where
  "is_digit c = (c \<in> set ''0123456789'')"

definition digits_value :: "string \<Rightarrow> nat" where
  "digits_value s = foldl (\<lambda>a c. 10 * a + (of_char c - 48)) 0 s"

definition read_unsigned :: "string \<Rightarrow> real option" where
  "read_unsigned s =
     (let whole = takeWhile is_digit s; rest = dropWhile is_digit s
      in if whole = [] then None
         else case rest of
                [] \<Rightarrow> Some (real (digits_value whole))
              | c # fraction \<Rightarrow>
                  if c = CHR ''.'' \<and> fraction \<noteq> [] \<and> list_all is_digit fraction
                  then Some (real (digits_value whole) +
                             real (digits_value fraction) / 10 ^ length fraction)
                  else None)"

definition read_number :: "string \<Rightarrow> real option" where
  "read_number s =
     (if s \<noteq> [] \<and> hd s = CHR ''-'' then map_option uminus (read_unsigned (tl s))
      else read_unsigned s)"

text \<open>
  The value of an expression for a node: \<open>env\<close> holds the variables bound so far, \<open>now\<close>
  is the moment at which the store evaluates the request. \<open>since(v)\<close> is the number of
  seconds from the time \<open>v\<close> to \<open>now\<close>; \<open>cond\<close> takes its second argument where the
  comparison holds and its third elsewhere. An expression over a variable that the node
  does not bind, or over a text that is not a numeral, has no value, and neither has a
  division by zero.
\<close>

fun compare :: "rel \<Rightarrow> real \<Rightarrow> real \<Rightarrow> bool" where
  "compare Greater a b = (a > b)"
| "compare Equal a b = (a = b)"

fun eval :: "(string \<times> real) list \<Rightarrow> real \<Rightarrow> expr \<Rightarrow> real option" where
  "eval env now (Var v) = map_of env v"
| "eval env now (Num s) = read_number s"
| "eval env now (Since v) = map_option (\<lambda>t. now - t) (map_of env v)"
| "eval env now (Cond a r b x y) =
     (case (eval env now a, eval env now b) of
        (Some va, Some vb) \<Rightarrow> if compare r va vb then eval env now x else eval env now y
      | _ \<Rightarrow> None)"
| "eval env now (Minus a b) =
     (case (eval env now a, eval env now b) of
        (Some va, Some vb) \<Rightarrow> Some (va - vb)
      | _ \<Rightarrow> None)"
| "eval env now (Times a b) =
     (case (eval env now a, eval env now b) of
        (Some va, Some vb) \<Rightarrow> Some (va * vb)
      | _ \<Rightarrow> None)"
| "eval env now (Over a b) =
     (case (eval env now a, eval env now b) of
        (Some va, Some vb) \<Rightarrow> if vb = 0 then None else Some (va / vb)
      | _ \<Rightarrow> None)"
| "eval env now (Paren e) = eval env now e"

text \<open>
  One line of a block, for a node: the variables bound so far and the named values of the
  node's answer so far, extended by the line. The lines under an edge belong to the nodes
  the edge leads to.
\<close>

fun step ::
  "real \<Rightarrow> node \<Rightarrow> item \<Rightarrow> (string \<times> real) list \<times> (string \<times> val) list
     \<Rightarrow> (string \<times> real) list \<times> (string \<times> val) list" where
  "step now n (Leaf p) (env, object) =
     (case attr n p of
        None \<Rightarrow> (env, object)
      | Some x \<Rightarrow> (env, object @ [(p, x)]))"
| "step now n (As v p) (env, object) =
     (case attr n p of
        Some (Number x) \<Rightarrow> ((v, x) # env, object)
      | _ \<Rightarrow> (env, object))"
| "step now n (AliasAs a v p) (env, object) =
     (case attr n p of
        Some (Number x) \<Rightarrow> ((v, x) # env, object @ [(a, Number x)])
      | Some (Text t) \<Rightarrow> (env, object @ [(a, Text t)])
      | None \<Rightarrow> (env, object))"
| "step now n (AsMath v e) (env, object) =
     (case eval env now e of
        None \<Rightarrow> (env, object)
      | Some x \<Rightarrow> ((v, x) # env, object))"
| "step now n (AliasMath a e) (env, object) =
     (case eval env now e of
        None \<Rightarrow> (env, object)
      | Some x \<Rightarrow> (env, object @ [(a, Number x)]))"
| "step now n (AsCount v p) (env, object) = ((v, real (count_of n p)) # env, object)"
| "step now n (Edge a e f items) (env, object) = (env, object)"

definition eval_items ::
  "real \<Rightarrow> node \<Rightarrow> item list \<Rightarrow> (string \<times> real) list \<times> (string \<times> val) list" where
  "eval_items now n items = fold (step now n) items ([], [])"

definition variable :: "real \<Rightarrow> node \<Rightarrow> item list \<Rightarrow> string \<Rightarrow> real option" where
  "variable now n items v = map_of (fst (eval_items now n items)) v"

definition answer_value :: "real \<Rightarrow> node \<Rightarrow> item list \<Rightarrow> string \<Rightarrow> val option" where
  "answer_value now n items a = map_of (snd (eval_items now n items)) a"

text \<open>
  The answer to a request over a graph: one object for each selected node, with the named
  values of the node. A node that has none of the values asked for gives no object: the
  store does not return empty objects. \<open>decode_Pod\<close> is the decoding of an object into
  \<open>models.Pod\<close>: a field that the object does not carry keeps its zero value.
\<close>

definition answer :: "real \<Rightarrow> node list \<Rightarrow> request \<Rightarrow> (string \<times> val) list list" where
  "answer now graph r =
     filter (\<lambda>object. object \<noteq> [])
       (map (\<lambda>n. snd (eval_items now n (request_items r))) (filter (selects r) graph))"

definition decode_Pod :: "(string \<times> val) list \<Rightarrow> Pod" where
  "decode_Pod object =
     \<lparr>UID = (case map_of object ''uid'' of Some (Text u) \<Rightarrow> u | _ \<Rightarrow> []),
      Name = (case map_of object ''name'' of Some (Text t) \<Rightarrow> t | _ \<Rightarrow> []),
      CPUPrice = (case map_of object ''cpuPrice'' of Some (Number x) \<Rightarrow> x | _ \<Rightarrow> 0),
      MemoryPrice = (case map_of object ''memoryPrice'' of Some (Number x) \<Rightarrow> x | _ \<Rightarrow> 0)\<rparr>"

text \<open>
  Modelled from the spec: what the predicate of \<open>createFilterFromListOfLabels\<close> says of a
  label node. Section 4.3 (4) and the last but one property of section 8: the predicate
  is the disjunction of the pairs, and a pair \<open>key=value\<close> holds of the label with that key
  and that value.
\<close>

definition label_filter_holds :: "(string \<times> string) list \<Rightarrow> node \<Rightarrow> bool" where
  "label_filter_holds disjuncts l =
     list_ex (\<lambda>(key, val). label_key l = key \<and> label_value l = val) disjuncts"

text \<open>
  The two blocks of the text of \<open>RetrievePodsUIDsByLabelsFilter\<close>, lines 196 to 204. The
  first starts at the label nodes (\<open>has(isLabel)\<close>) that satisfy the filter, follows the
  edge \<open>label\<close> backwards (\<open>~label\<close>) to the nodes that carry such a label, keeps those
  with \<open>isPod\<close> and binds them to the variable \<open>podUIDs\<close>. The second returns \<open>uid\<close> and
  \<open>name\<close> of the nodes in \<open>podUIDs\<close>; the prices, which it does not ask for, stay 0.
\<close>

definition podUIDs :: "(string \<times> string) list \<Rightarrow> node list \<Rightarrow> string list" where
  "podUIDs disjuncts graph =
     map node_uid
       (filter (\<lambda>p. isPod p \<and>
                  list_ex (\<lambda>l. isLabel l \<and> label_filter_holds disjuncts l \<and>
                             node_uid l \<in> set (label_edge p)) graph)
          graph)"

definition RetrievePodsUIDsByLabelsFilter_answer ::
  "(string \<times> string) list \<Rightarrow> node list \<Rightarrow> Pod list" where
  "RetrievePodsUIDsByLabelsFilter_answer disjuncts graph =
     map (\<lambda>p. \<lparr>UID = node_uid p, Name = node_name p, CPUPrice = 0, MemoryPrice = 0\<rparr>)
       (filter (\<lambda>p. node_uid p \<in> set (podUIDs disjuncts graph)) graph)"

subsection \<open>Notions of the specification\<close>

text \<open>
  The specification's wording, as a second definition: the distinct elements of a sequence
  in the order of their first occurrence.
\<close>

fun first_occurrences :: "'a list \<Rightarrow> 'a list" where
  "first_occurrences [] = []"
| "first_occurrences (x # xs) = x # first_occurrences (filter (\<lambda>y. y \<noteq> x) xs)"

text \<open>The orphan of the specification's glossary: a node with no outbound selection edge.\<close>

definition orphan :: "node \<Rightarrow> bool" where
  "orphan n = (pod_edge n = [])"

subsection \<open>Concrete values for the examples\<close>

text \<open>
  A configuration with a given value of \<open>All\<close>, default prices 0.024 and 0.01, and
  formatting functions that are given on the few numbers the examples format.
\<close>

definition example_FormatFloat :: "real \<Rightarrow> string" where
  "example_FormatFloat x =
     (if x = 24 / 1000 then ''0.02400000000''
      else if x = 1 / 100 then ''0.01000000000''
      else if x = 5 / 100 then ''0.05000000000''
      else ''0.00000000000'')"

definition example_Sprintf :: "real \<Rightarrow> string" where
  "example_Sprintf x = (if x = 864000 then ''864000.000000'' else ''0.000000'')"

definition example_config :: "string \<Rightarrow> config" where
  "example_config all =
     \<lparr>All_const = all,
      DefaultCPUCostInFloat64 = 24 / 1000,
      DefaultMemCostInFloat64 = 1 / 100,
      DefaultStorageCostPerGBPerHour = ''0.00013888888'',
      FormatFloat_f_11 = example_FormatFloat,
      Sprintf_f = example_Sprintf\<rparr>"

text \<open>A client whose every call fails, and one that answers every call with given values.\<close>

definition failing_dgraph :: "error \<Rightarrow> unit dgraph" where
  "failing_dgraph err =
     \<lparr>ExecuteQueryRaw = (\<lambda>q. Inl err), ExecuteQuery = (\<lambda>q. Inl err),
      ExecuteQueryParent = (\<lambda>q. Inl err)\<rparr>"

definition answering_dgraph :: "string \<Rightarrow> Pod list \<Rightarrow> unit dgraph" where
  "answering_dgraph raw Pods =
     \<lparr>ExecuteQueryRaw = (\<lambda>q. Inr raw), ExecuteQuery = (\<lambda>q. Inr Pods),
      ExecuteQueryParent = (\<lambda>q. Inr ())\<rparr>"

text \<open>
  A way of writing the disjunction of the pairs, given only as a value for the parameter
  \<open>filter_text\<close> in the examples.
\<close>

fun example_filter_text :: "(string \<times> string) list \<Rightarrow> string" where
  "example_filter_text [] = []"
| "example_filter_text [(key, val)] =
     ''(eq(key, \"'' @ key @ ''\") AND eq(value, \"'' @ val @ ''\"))''"
| "example_filter_text ((key, val) # d # ds) =
     ''(eq(key, \"'' @ key @ ''\") AND eq(value, \"'' @ val @ ''\"))'' @ '' OR '' @
     example_filter_text (d # ds)"

definition initial_world :: world where
  "initial_world = \<lparr>calls = [], logged = []\<rparr>"

text \<open>
  A pod named \<open>web\<close> that runs since second 500000 of the store's clock; the other nodes
  of the examples are variations of it.
\<close>

definition example_pod :: node where
  "example_pod =
     \<lparr>node_uid = ''0x1'', node_name = ''web'', isPod = True, isContainer = False,
      isLabel = False, pod_edge = [], label_edge = [], label_key = [], label_value = [],
      startTime = 500000, endTime = None, cpuRequest = 2, memoryRequest = 4,
      storageRequest = 10, node_cpuPrice = None, node_memoryPrice = None\<rparr>"

definition example_label :: "string \<Rightarrow> string \<Rightarrow> string \<Rightarrow> node" where
  "example_label u key val =
     example_pod\<lparr>node_uid := u, node_name := [], isPod := False, isLabel := True,
       label_key := key, label_value := val\<rparr>"

definition labelled_pod :: "string \<Rightarrow> string \<Rightarrow> string list \<Rightarrow> node" where
  "labelled_pod u name ls = example_pod\<lparr>node_uid := u, node_name := name, label_edge := ls\<rparr>"

definition example_graph :: "node list" where
  "example_graph =
     [example_label ''0xa'' ''tier'' ''frontend'',
      example_label ''0xb'' ''tier'' ''backend'',
      example_label ''0xc'' ''env'' ''prod'',
      example_label ''0xd'' ''env'' ''dev'',
      labelled_pod ''0x1'' ''web'' [''0xa'', ''0xd''],
      labelled_pod ''0x2'' ''batch'' [''0xc''],
      labelled_pod ''0x3'' ''scratch'' [''0xd''],
      labelled_pod ''0x4'' ''api'' [''0xb'', ''0xc'']]"

section \<open>Properties\<close>

subsection \<open>Deduplication\<close>

lemma set_first_occurrences: "set (first_occurrences xs) = set xs"
  by (induction xs rule: first_occurrences.induct) auto

lemma distinct_first_occurrences: "distinct (first_occurrences xs)"
  by (induction xs rule: first_occurrences.induct) (auto simp: set_first_occurrences)

lemma length_first_occurrences: "length (first_occurrences xs) = card (set xs)"
  by (metis distinct_card distinct_first_occurrences set_first_occurrences)

text \<open>
  Loop invariant: the keys of \<open>duplicateChecker\<close> are the identifiers collected so far.
\<close>

lemma removeDuplicates_loop_eq:
  "dom duplicateChecker = set podsUIDs \<Longrightarrow>
   removeDuplicates_loop pods duplicateChecker podsUIDs =
     podsUIDs @ first_occurrences (filter (\<lambda>u. u \<notin> set podsUIDs) (map UID pods))"
proof (induction pods arbitrary: duplicateChecker podsUIDs)
  case Nil
  then show ?case by simp
next
  case (Cons pod pods)
  show ?case
  proof (cases "duplicateChecker (UID pod)")
    case None
    then have "UID pod \<notin> dom duplicateChecker" by (simp add: domIff)
    then have notin: "UID pod \<notin> set podsUIDs" using Cons.prems by simp
    have d: "dom (duplicateChecker(UID pod \<mapsto> True)) = set (podsUIDs @ [UID pod])"
      using Cons.prems by auto
    have f: "filter (\<lambda>y. y \<noteq> UID pod) (filter (\<lambda>u. u \<notin> set podsUIDs) (map UID pods))
           = filter (\<lambda>u. u \<notin> set (podsUIDs @ [UID pod])) (map UID pods)"
      by (auto intro: filter_cong)
    have "removeDuplicates_loop (pod # pods) duplicateChecker podsUIDs
        = removeDuplicates_loop pods (duplicateChecker(UID pod \<mapsto> True)) (podsUIDs @ [UID pod])"
      using None by simp
    also have "\<dots> = (podsUIDs @ [UID pod]) @
        first_occurrences (filter (\<lambda>u. u \<notin> set (podsUIDs @ [UID pod])) (map UID pods))"
      by (rule Cons.IH [OF d])
    also have "\<dots> = podsUIDs @
        first_occurrences (filter (\<lambda>u. u \<notin> set podsUIDs) (map UID (pod # pods)))"
      using notin f [symmetric] by simp
    finally show ?thesis .
  next
    case (Some b)
    then have "UID pod \<in> dom duplicateChecker" by (simp add: domIff)
    then have "UID pod \<in> set podsUIDs" using Cons.prems by simp
    then show ?thesis using Some Cons.IH [OF Cons.prems] by simp
  qed
qed

lemma removeDuplicates_eq: "removeDuplicates pods = first_occurrences (map UID pods)"
  by (simp add: removeDuplicates_def removeDuplicates_loop_eq)

text \<open>
  C8. For every sequence of pod records, \<open>removeDuplicates\<close> returns the distinct store
  identifiers (\<open>UID\<close>) of the sequence in the order of their first occurrence. The result is
  a function of the identifiers alone: the names play no part. In particular a sequence
  that carries the identifier \<open>0x1\<close> three times (under two different names), and
  \<open>0x2\<close> and \<open>0x3\<close> once each (both under a name that \<open>0x1\<close> also carries), yields the three
  identifiers in first-occurrence order.
\<close>

theorem removeDuplicates_first_occurrence_order:
  "removeDuplicates pods = first_occurrences (map UID pods)
   \<and> distinct (removeDuplicates pods)
   \<and> set (removeDuplicates pods) = UID ` set pods
   \<and> length (removeDuplicates pods) = card (UID ` set pods)
   \<and> removeDuplicates
        [\<lparr>UID = ''0x1'', Name = ''web'', CPUPrice = 0, MemoryPrice = 0\<rparr>,
         \<lparr>UID = ''0x2'', Name = ''web'', CPUPrice = 0, MemoryPrice = 0\<rparr>,
         \<lparr>UID = ''0x1'', Name = ''db'', CPUPrice = 0, MemoryPrice = 0\<rparr>,
         \<lparr>UID = ''0x3'', Name = ''web'', CPUPrice = 0, MemoryPrice = 0\<rparr>,
         \<lparr>UID = ''0x1'', Name = ''web'', CPUPrice = 0, MemoryPrice = 0\<rparr>]
      = [''0x1'', ''0x2'', ''0x3'']"
proof -
  have "removeDuplicates
        [\<lparr>UID = ''0x1'', Name = ''web'', CPUPrice = 0, MemoryPrice = 0\<rparr>,
         \<lparr>UID = ''0x2'', Name = ''web'', CPUPrice = 0, MemoryPrice = 0\<rparr>,
         \<lparr>UID = ''0x1'', Name = ''db'', CPUPrice = 0, MemoryPrice = 0\<rparr>,
         \<lparr>UID = ''0x3'', Name = ''web'', CPUPrice = 0, MemoryPrice = 0\<rparr>,
         \<lparr>UID = ''0x1'', Name = ''web'', CPUPrice = 0, MemoryPrice = 0\<rparr>]
      = [''0x1'', ''0x2'', ''0x3'']"
    by (simp add: removeDuplicates_def)
  then show ?thesis
    by (simp add: removeDuplicates_eq distinct_first_occurrences set_first_occurrences
        length_first_occurrences)
qed

subsection \<open>The texts and the requests\<close>

text \<open>
  Each text that the file builds is, character for character, the writing of the request
  given for it above.
\<close>

lemma tabs_simps: "tabs 0 = []" "tabs (Suc d) = tab # tabs d"
  by (simp_all add: tabs_def)

lemma render_RetrievePodsInteractions_request:
  "render_request (RetrievePodsInteractions_request cfg name isOrphan)
     = RetrievePodsInteractions_query cfg name isOrphan"
  by (simp add: RetrievePodsInteractions_request_def RetrievePodsInteractions_query_def
      interactions_items_def tabs_simps eval_nat_numeral)


lemma render_RetrievePodMetrics_request:
  "render_request (RetrievePodMetrics_request name secondsSinceMonthStart cpuPrice memoryPrice
       storagePrice)
     = RetrievePodMetrics_query name secondsSinceMonthStart cpuPrice memoryPrice storagePrice"
  by (simp add: RetrievePodMetrics_request_def RetrievePodMetrics_query_def
      RetrievePodMetrics_children_items_def RetrievePodMetrics_parent_items_def
      tabs_simps eval_nat_numeral)

text \<open>The numerals of the texts, and of the examples, as the store reads them.\<close>

lemma read_number_constants:
  "read_number ''0'' = Some 0"
  "read_number ''0.0'' = Some 0"
  "read_number ''3600'' = Some 3600"
  by (simp_all add: read_number_def read_unsigned_def is_digit_def digits_value_def Let_def)

lemma read_number_examples:
  "read_number ''864000.000000'' = Some 864000"
  "read_number ''0.02400000000'' = Some (24 / 1000)"
  "read_number ''0.01000000000'' = Some (1 / 100)"
  "read_number ''0.05000000000'' = Some (5 / 100)"
  "read_number ''0.00013888888'' = Some (13888888 / 100000000000)"
  "read_number ''NaN'' = None"
  by (simp_all add: read_number_def read_unsigned_def is_digit_def digits_value_def Let_def)

text \<open>The predicates of a node that the requests name.\<close>

lemma attr_simps:
  "attr n ''startTime'' = Some (Number (startTime n))"
  "attr n ''endTime'' = map_option Number (endTime n)"
  "attr n ''cpuRequest'' = Some (Number (cpuRequest n))"
  "attr n ''memoryRequest'' = Some (Number (memoryRequest n))"
  "attr n ''storageRequest'' = Some (Number (storageRequest n))"
  "attr n ''cpuPrice'' = map_option Number (node_cpuPrice n)"
  "attr n ''memoryPrice'' = map_option Number (node_memoryPrice n)"
  "attr n ''name'' = Some (Text (node_name n))"
  "attr n ''type'' = None"
  by (simp_all add: attr_def)

lemma has_predicate_simps:
  "has_predicate n ''isPod'' = isPod n"
  "has_predicate n ''pod'' = (pod_edge n \<noteq> [])"
  by (simp_all add: has_predicate_def)

lemma count_of_endTime: "count_of n ''endTime'' = (case endTime n of None \<Rightarrow> 0 | Some et \<Rightarrow> 1)"
  by (simp add: count_of_def has_predicate_def attr_simps split: option.split)

lemma plain_web: "plain ''web''"
  by (simp add: plain_def)

subsection \<open>Interactions\<close>

lemma RetrievePodsInteractions_calls:
  "calls (snd (RetrievePodsInteractions cfg dg name isOrphan w)) =
     calls w @ [RetrievePodsInteractions_query cfg name isOrphan]"
  by (simp add: RetrievePodsInteractions_def Let_def call_store_def Errorf_def split: sum.split)

text \<open>
  C1, as stated, fails in both halves. With the wildcard target and the flag set, the
  request is \<open>pods(func: has(isPod))\<close> without a filter: a pod that has an outbound \<open>pod\<close>
  edge is selected, whether the constant \<open>All\<close> is \<open>all\<close> or the empty text. It is the
  request for the flag unset that looks at the edge, and it keeps the pods that have one:
  an orphan is not selected there. And line 61 puts the target between the quotes as it
  is: for the target \<open>web") OR has(isPod) OR eq(name, "x\<close> the text is the writing of a
  filter with three alternatives, the second of which every pod passes, so that a pod
  named \<open>db\<close> is selected; the selection by name is not given for such a target.
\<close>

theorem interactions_orphan_flag_counterexample:
  "RetrievePodsInteractions_query (example_config ''all'') ''all'' True
     = render_request (Query 3 ''pods'' (FHas ''isPod'') None interactions_items)
   \<and> RetrievePodsInteractions_selects (example_config ''all'') ''all'' True
       (example_pod\<lparr>pod_edge := [''0x2'']\<rparr>) = Some True
   \<and> \<not> orphan (example_pod\<lparr>pod_edge := [''0x2'']\<rparr>)
   \<and> RetrievePodsInteractions_selects (example_config []) [] True
       (example_pod\<lparr>pod_edge := [''0x2'']\<rparr>) = Some True
   \<and> orphan example_pod
   \<and> RetrievePodsInteractions_selects (example_config ''all'') ''all'' False example_pod
       = Some False
   \<and> RetrievePodsInteractions_selects (example_config []) [] False example_pod = Some False
   \<and> RetrievePodsInteractions_query (example_config ''all'')
        ''web\") OR has(isPod) OR eq(name, \"x'' False
     = render_request
         (Query 2 ''pods'' (FHas ''isPod'')
            (Some (FOr (FEq ''name'' ''web'') (FOr (FHas ''isPod'') (FEq ''name'' ''x''))))
            interactions_items)
   \<and> selects
        (Query 2 ''pods'' (FHas ''isPod'')
           (Some (FOr (FEq ''name'' ''web'') (FOr (FHas ''isPod'') (FEq ''name'' ''x''))))
           interactions_items)
        (example_pod\<lparr>node_name := ''db''\<rparr>)
   \<and> RetrievePodsInteractions_selects (example_config ''all'')
        ''web\") OR has(isPod) OR eq(name, \"x'' False (example_pod\<lparr>node_name := ''db''\<rparr>)
     = None"
proof (intro conjI)
  show "RetrievePodsInteractions_query (example_config ''all'') ''all'' True
      = render_request (Query 3 ''pods'' (FHas ''isPod'') None interactions_items)"
    by (simp add: RetrievePodsInteractions_query_def example_config_def
        interactions_items_def tabs_simps eval_nat_numeral)
  show "RetrievePodsInteractions_query (example_config ''all'')
        ''web\") OR has(isPod) OR eq(name, \"x'' False
     = render_request
         (Query 2 ''pods'' (FHas ''isPod'')
            (Some (FOr (FEq ''name'' ''web'') (FOr (FHas ''isPod'') (FEq ''name'' ''x''))))
            interactions_items)"
    by (simp add: RetrievePodsInteractions_query_def example_config_def
        interactions_items_def tabs_simps eval_nat_numeral)
  show "RetrievePodsInteractions_selects (example_config ''all'') ''all'' True
       (example_pod\<lparr>pod_edge := [''0x2'']\<rparr>) = Some True"
    "RetrievePodsInteractions_selects (example_config []) [] True
       (example_pod\<lparr>pod_edge := [''0x2'']\<rparr>) = Some True"
    "RetrievePodsInteractions_selects (example_config ''all'') ''all'' False example_pod
       = Some False"
    "RetrievePodsInteractions_selects (example_config []) [] False example_pod = Some False"
    by (simp_all add: RetrievePodsInteractions_selects_def RetrievePodsInteractions_request_def
        example_config_def has_predicate_simps example_pod_def)
  show "\<not> orphan (example_pod\<lparr>pod_edge := [''0x2'']\<rparr>)" "orphan example_pod"
    by (simp_all add: orphan_def example_pod_def)
  show "selects
        (Query 2 ''pods'' (FHas ''isPod'')
           (Some (FOr (FEq ''name'' ''web'') (FOr (FHas ''isPod'') (FEq ''name'' ''x''))))
           interactions_items)
        (example_pod\<lparr>node_name := ''db''\<rparr>)"
    "RetrievePodsInteractions_selects (example_config ''all'')
        ''web\") OR has(isPod) OR eq(name, \"x'' False (example_pod\<lparr>node_name := ''db''\<rparr>)
     = None"
    by (simp_all add: RetrievePodsInteractions_selects_def has_predicate_simps example_pod_def
        example_config_def plain_def)
qed

text \<open>
  C1, amended. \<open>RetrievePodsInteractions\<close> sends one request, and its text is the writing
  of the request given above. For the wildcard target and the flag set, the request
  selects every pod, orphan or not (root \<open>has(isPod)\<close>, no filter); for the wildcard
  target and the flag unset, it selects the pods that have an outbound selection edge
  (filter \<open>has(pod)\<close>), so no orphan. For every other target that has no double quote and
  no backslash in it, it selects the pods whose name is the target
  (filter \<open>eq(name, "target")\<close>).
\<close>

theorem interactions_selection:
  "render_request (RetrievePodsInteractions_request cfg name isOrphan)
     = RetrievePodsInteractions_query cfg name isOrphan
   \<and> calls (snd (RetrievePodsInteractions cfg dg name isOrphan w))
       = calls w @ [render_request (RetrievePodsInteractions_request cfg name isOrphan)]
   \<and> RetrievePodsInteractions_selects cfg (All_const cfg) True n = Some (isPod n)
   \<and> RetrievePodsInteractions_selects cfg (All_const cfg) False n
       = Some (isPod n \<and> \<not> orphan n)
   \<and> (name \<noteq> All_const cfg \<and> plain name \<longrightarrow>
        RetrievePodsInteractions_selects cfg name isOrphan n
          = Some (isPod n \<and> node_name n = name))"
proof (intro conjI)
  show "render_request (RetrievePodsInteractions_request cfg name isOrphan)
     = RetrievePodsInteractions_query cfg name isOrphan"
    by (rule render_RetrievePodsInteractions_request)
  show "calls (snd (RetrievePodsInteractions cfg dg name isOrphan w))
       = calls w @ [render_request (RetrievePodsInteractions_request cfg name isOrphan)]"
    by (simp only: render_RetrievePodsInteractions_request RetrievePodsInteractions_calls)
  show "RetrievePodsInteractions_selects cfg (All_const cfg) True n = Some (isPod n)"
    "RetrievePodsInteractions_selects cfg (All_const cfg) False n
       = Some (isPod n \<and> \<not> orphan n)"
    by (simp_all add: RetrievePodsInteractions_selects_def RetrievePodsInteractions_request_def
        has_predicate_simps orphan_def)
  show "name \<noteq> All_const cfg \<and> plain name \<longrightarrow>
        RetrievePodsInteractions_selects cfg name isOrphan n
          = Some (isPod n \<and> node_name n = name)"
    by (simp add: RetrievePodsInteractions_selects_def RetrievePodsInteractions_request_def
        has_predicate_simps attr_simps)
qed

theorem interactions_selection_witness:
  "''web'' \<noteq> All_const (example_config ''all'')
   \<and> plain ''web''
   \<and> RetrievePodsInteractions_selects (example_config ''all'') ''web'' True example_pod
       = Some True
   \<and> RetrievePodsInteractions_selects (example_config ''all'') ''web'' True
         (example_pod\<lparr>node_name := ''db''\<rparr>) = Some False"
proof -
  have named: "''web'' \<noteq> All_const (example_config ''all'')"
    by (simp add: example_config_def)
  have nodes: "isPod example_pod" "node_name example_pod = ''web''"
    "isPod (example_pod\<lparr>node_name := ''db''\<rparr>)"
    "node_name (example_pod\<lparr>node_name := ''db''\<rparr>) \<noteq> ''web''"
    by (simp_all add: example_pod_def)
  have first: "RetrievePodsInteractions_selects (example_config ''all'') ''web'' True example_pod
       = Some (isPod example_pod \<and> node_name example_pod = ''web'')"
    using interactions_selection [where cfg = "example_config ''all''" and name = "''web''"
        and isOrphan = True and n = example_pod] named plain_web
    by blast
  have second: "RetrievePodsInteractions_selects (example_config ''all'') ''web'' True
         (example_pod\<lparr>node_name := ''db''\<rparr>)
       = Some (isPod (example_pod\<lparr>node_name := ''db''\<rparr>)
               \<and> node_name (example_pod\<lparr>node_name := ''db''\<rparr>) = ''web'')"
    using interactions_selection [where cfg = "example_config ''all''" and name = "''web''"
        and isOrphan = True and n = "example_pod\<lparr>node_name := ''db''\<rparr>"] named plain_web
    by blast
  show ?thesis
    using named plain_web first second nodes by simp
qed

text \<open>
  C10. For every target other than the wildcard, the two values of \<open>isOrphan\<close> give the
  same request text, the same selection, the same result and the same calls to the store.
  (The message logged when the store fails carries the flag; the claim is about the
  request and the result.)
\<close>

theorem interactions_named_target_ignores_isOrphan:
  "name \<noteq> All_const cfg \<Longrightarrow>
     RetrievePodsInteractions_query cfg name True = RetrievePodsInteractions_query cfg name False
   \<and> RetrievePodsInteractions_selects cfg name True = RetrievePodsInteractions_selects cfg name False
   \<and> fst (RetrievePodsInteractions cfg dg name True w) =
       fst (RetrievePodsInteractions cfg dg name False w)
   \<and> calls (snd (RetrievePodsInteractions cfg dg name True w)) =
       calls (snd (RetrievePodsInteractions cfg dg name False w))"
proof -
  assume named: "name \<noteq> All_const cfg"
  have same_text: "RetrievePodsInteractions_query cfg name True
      = RetrievePodsInteractions_query cfg name False"
    using named by (simp add: RetrievePodsInteractions_query_def)
  have same_request: "RetrievePodsInteractions_request cfg name True
      = RetrievePodsInteractions_request cfg name False"
    using named by (simp add: RetrievePodsInteractions_request_def)
  have same_selection: "RetrievePodsInteractions_selects cfg name True
      = RetrievePodsInteractions_selects cfg name False"
    by (simp add: RetrievePodsInteractions_selects_def same_request fun_eq_iff)
  have same_run: "RetrievePodsInteractions cfg dg name True w
      = (fst (RetrievePodsInteractions cfg dg name False w),
         snd (RetrievePodsInteractions cfg dg name True w))
    \<and> calls (snd (RetrievePodsInteractions cfg dg name True w))
      = calls (snd (RetrievePodsInteractions cfg dg name False w))"
    by (simp add: RetrievePodsInteractions_def Let_def same_text call_store_def Errorf_def
        split: sum.split)
  show ?thesis
    using same_text same_selection same_run by (metis fst_conv)
qed

theorem interactions_named_target_ignores_isOrphan_witness:
  "''web'' \<noteq> All_const (example_config ''all'')
   \<and> fst (RetrievePodsInteractions (example_config ''all'') (answering_dgraph ''{}'' []) ''web'' True
        initial_world) = ''{}''
   \<and> fst (RetrievePodsInteractions (example_config ''all'') (answering_dgraph ''{}'' []) ''web'' False
        initial_world) = ''{}''"
  using interactions_named_target_ignores_isOrphan [of "''web''" "example_config ''all''"
      "answering_dgraph ''{}'' []" initial_world]
  by (simp add: example_config_def RetrievePodsInteractions_def answering_dgraph_def Let_def)

subsection \<open>Hierarchy and metrics: the wildcard target\<close>

lemma getJSONDataFromQuery_calls:
  "calls (snd (getJSONDataFromQuery dg query w)) = calls w @ [query]"
  by (simp add: getJSONDataFromQuery_def Let_def call_store_def Errorf_def split: sum.split)

lemma getPricePerResourceForPod_Inr:
  "\<exists>cpuPriceInFloat64 memoryPriceInFloat64.
     getPricePerResourceForPod cfg dg name w =
       (Inr (cpuPriceInFloat64, memoryPriceInFloat64),
        call_store (getPricePerResourceForPod_query name) w)"
  by (simp add: getPricePerResourceForPod_def Let_def index_pods_def split: sum.split list.split)

lemma RetrievePodMetrics_named:
  assumes "name \<noteq> All_const cfg"
    and "getPricePerResourceForPod cfg dg name w = (Inr (cpuPriceInFloat64, memoryPriceInFloat64), w1)"
  shows "RetrievePodMetrics cfg dg seconds name w =
     (Inr (fst (getJSONDataFromQuery dg
        (RetrievePodMetrics_query name (Sprintf_f cfg seconds)
           (FormatFloat_f_11 cfg cpuPriceInFloat64) (FormatFloat_f_11 cfg memoryPriceInFloat64)
           (DefaultStorageCostPerGBPerHour cfg)) w1)),
      snd (getJSONDataFromQuery dg
        (RetrievePodMetrics_query name (Sprintf_f cfg seconds)
           (FormatFloat_f_11 cfg cpuPriceInFloat64) (FormatFloat_f_11 cfg memoryPriceInFloat64)
           (DefaultStorageCostPerGBPerHour cfg)) w1))"
  using assms by (simp add: RetrievePodMetrics_def Let_def split: prod.split)

lemma RetrievePodMetrics_calls:
  assumes "name \<noteq> All_const cfg"
  shows "\<exists>query. calls (snd (RetrievePodMetrics cfg dg seconds name w))
           = calls w @ [getPricePerResourceForPod_query name, query]"
proof -
  obtain c m where p: "getPricePerResourceForPod cfg dg name w =
      (Inr (c, m), call_store (getPricePerResourceForPod_query name) w)"
    using getPricePerResourceForPod_Inr by blast
  show ?thesis
    by (simp add: RetrievePodMetrics_named [OF assms p] getJSONDataFromQuery_calls call_store_def)
qed

text \<open>
  C3, as stated, fails. The guard of both functions is the one comparison \<open>name == All\<close>,
  and \<open>All\<close> is one text: if it is the empty text, the target \<open>all\<close> is looked up as a pod
  name, and if it is \<open>all\<close>, the empty target is. In each case the store is called: once
  by the hierarchy, twice by the metrics (the price lookup, then the request).
\<close>

theorem hierarchy_empty_and_all_counterexample:
  "calls (snd (RetrievePodHierarchy (example_config []) (answering_dgraph [] []) ''all''
       initial_world)) = [RetrievePodHierarchy_query ''all'']
   \<and> calls (snd (RetrievePodMetrics (example_config []) (answering_dgraph [] []) 864000 ''all''
       initial_world))
     = [getPricePerResourceForPod_query ''all'',
        RetrievePodMetrics_query ''all'' ''864000.000000'' ''0.02400000000'' ''0.01000000000''
          ''0.00013888888'']
   \<and> calls (snd (RetrievePodHierarchy (example_config ''all'') (answering_dgraph [] []) []
       initial_world)) = [RetrievePodHierarchy_query []]
   \<and> calls (snd (RetrievePodMetrics (example_config ''all'') (answering_dgraph [] []) 864000 []
       initial_world))
     = [getPricePerResourceForPod_query [],
        RetrievePodMetrics_query [] ''864000.000000'' ''0.02400000000'' ''0.01000000000''
          ''0.00013888888'']"
  by (simp add: RetrievePodHierarchy_def RetrievePodMetrics_def getJSONDataFromQuery_def
      getPricePerResourceForPod_def call_store_def Let_def example_config_def
      answering_dgraph_def initial_world_def example_FormatFloat_def example_Sprintf_def)

text \<open>
  C3, amended. For the hierarchy and for the metrics, a call with the wildcard target (the
  constant \<open>All\<close>) returns the empty result, logs the usage error and leaves the calls to
  the store as they were. Every other target is sent to the store, so at least one of the
  empty target and the target \<open>all\<close> is.
\<close>

theorem wildcard_target_short_circuits:
  "RetrievePodHierarchy cfg dg (All_const cfg) w = (None, Errorf Errorf_wrong_type_of_query w)
   \<and> RetrievePodMetrics cfg dg seconds (All_const cfg) w
       = (Inr None, Errorf Errorf_wrong_type_of_query w)
   \<and> calls (Errorf Errorf_wrong_type_of_query w) = calls w
   \<and> logged (Errorf Errorf_wrong_type_of_query w) = logged w @ [Errorf_wrong_type_of_query]
   \<and> (name \<noteq> All_const cfg \<longrightarrow>
        calls (snd (RetrievePodHierarchy cfg dg name w)) = calls w @ [RetrievePodHierarchy_query name]
        \<and> (\<exists>query. calls (snd (RetrievePodMetrics cfg dg seconds name w))
              = calls w @ [getPricePerResourceForPod_query name, query]))"
  using RetrievePodMetrics_calls [of name cfg dg seconds w]
  by (simp add: RetrievePodHierarchy_def RetrievePodMetrics_def Errorf_def
      getJSONDataFromQuery_calls)

theorem wildcard_target_short_circuits_witness:
  "''web'' \<noteq> All_const (example_config ''all'')
   \<and> calls (snd (RetrievePodHierarchy (example_config ''all'') (answering_dgraph [] []) ''web''
        initial_world)) = [RetrievePodHierarchy_query ''web'']
   \<and> RetrievePodHierarchy (example_config ''all'') (answering_dgraph [] []) ''all'' initial_world
       = (None, \<lparr>calls = [], logged = [Errorf_wrong_type_of_query]\<rparr>)"
  using wildcard_target_short_circuits [of "example_config ''all''" "answering_dgraph [] []"
      initial_world 0 "''web''"]
  by (simp add: example_config_def initial_world_def Errorf_def)

subsection \<open>Prices\<close>


lemma answer_example_override:
  "map decode_Pod
     (answer 1000000
        [example_pod\<lparr>node_cpuPrice := Some (1 / 20), node_memoryPrice := Some (1 / 100)\<rparr>]
        (getPricePerResourceForPod_request ''web''))
   = [\<lparr>UID = [], Name = [], CPUPrice = 1 / 20, MemoryPrice = 1 / 100\<rparr>]"
  by (simp add: answer_def eval_items_def getPricePerResourceForPod_request_def
      attr_simps has_predicate_simps example_pod_def decode_Pod_def)



subsection \<open>Failures of the store\<close>

lemma getJSONDataFromQuery_failure:
  "ExecuteQueryParent dg query = Inl err \<Longrightarrow>
   getJSONDataFromQuery dg query w =
     (None, Errorf (Errorf_getJSONDataFromQuery err) (call_store query w))"
  by (simp add: getJSONDataFromQuery_def Let_def)

lemma RetrievePodMetrics_failure:
  assumes name: "name \<noteq> All_const cfg"
    and fails: "ExecuteQueryParent dg (last (calls (snd (RetrievePodMetrics cfg dg seconds name w))))
                  = Inl err"
  shows "fst (RetrievePodMetrics cfg dg seconds name w) = Inr None
       \<and> logged (snd (RetrievePodMetrics cfg dg seconds name w))
           = logged w @ [Errorf_getJSONDataFromQuery err]"
proof -
  obtain c m where p: "getPricePerResourceForPod cfg dg name w =
      (Inr (c, m), call_store (getPricePerResourceForPod_query name) w)"
    using getPricePerResourceForPod_Inr by blast
  let ?q = "RetrievePodMetrics_query name (Sprintf_f cfg seconds) (FormatFloat_f_11 cfg c)
              (FormatFloat_f_11 cfg m) (DefaultStorageCostPerGBPerHour cfg)"
  let ?w1 = "call_store (getPricePerResourceForPod_query name) w"
  have r: "RetrievePodMetrics cfg dg seconds name w =
      (Inr (fst (getJSONDataFromQuery dg ?q ?w1)), snd (getJSONDataFromQuery dg ?q ?w1))"
    by (rule RetrievePodMetrics_named [OF name p])
  have "last (calls (snd (RetrievePodMetrics cfg dg seconds name w))) = ?q"
    by (simp add: r getJSONDataFromQuery_calls)
  then have "ExecuteQueryParent dg ?q = Inl err"
    using fails by simp
  then have "getJSONDataFromQuery dg ?q ?w1 =
      (None, Errorf (Errorf_getJSONDataFromQuery err) (call_store ?q ?w1))"
    by (rule getJSONDataFromQuery_failure)
  then show ?thesis
    by (simp add: r Errorf_def call_store_def)
qed

text \<open>
  C9. When the store fails on the request: \<open>RetrievePodsInteractions\<close> logs the failure
  and returns the nil slice; \<open>RetrievePodHierarchy\<close> and \<open>RetrievePodMetrics\<close> (for a target
  that passes the guard, and for the metrics when the failing request is the one sent
  last, after the price lookup) log the failure and return the empty structure;
  \<open>RetrievePodsUIDsByLabelsFilter\<close> and \<open>RetrievePodsInteractionsForAllLivePodsWithCount\<close>
  return the error of the store and log nothing.
\<close>

theorem store_failure_policy:
  "(ExecuteQueryRaw dg (RetrievePodsInteractions_query cfg name isOrphan) = Inl err \<longrightarrow>
      RetrievePodsInteractions cfg dg name isOrphan w =
        ([], Errorf (Errorf_interactions name isOrphan err)
               (call_store (RetrievePodsInteractions_query cfg name isOrphan) w)))
   \<and> (name \<noteq> All_const cfg \<and> ExecuteQueryParent dg (RetrievePodHierarchy_query name) = Inl err \<longrightarrow>
      RetrievePodHierarchy cfg dg name w =
        (None, Errorf (Errorf_getJSONDataFromQuery err)
                 (call_store (RetrievePodHierarchy_query name) w)))
   \<and> (name \<noteq> All_const cfg \<and>
       ExecuteQueryParent dg (last (calls (snd (RetrievePodMetrics cfg dg seconds name w)))) = Inl err \<longrightarrow>
      fst (RetrievePodMetrics cfg dg seconds name w) = Inr None
      \<and> logged (snd (RetrievePodMetrics cfg dg seconds name w))
          = logged w @ [Errorf_getJSONDataFromQuery err])
   \<and> (ExecuteQuery dg (RetrievePodsUIDsByLabelsFilter_query
                         (filter_text (createFilterFromListOfLabels labels))) = Inl err \<longrightarrow>
      fst (RetrievePodsUIDsByLabelsFilter filter_text dg labels w) = Inl err
      \<and> logged (snd (RetrievePodsUIDsByLabelsFilter filter_text dg labels w)) = logged w)
   \<and> (ExecuteQuery dg RetrievePodsInteractionsForAllLivePodsWithCount_query = Inl err \<longrightarrow>
      fst (RetrievePodsInteractionsForAllLivePodsWithCount dg w) = Inl err
      \<and> logged (snd (RetrievePodsInteractionsForAllLivePodsWithCount dg w)) = logged w)"
proof -
  have interactions: "ExecuteQueryRaw dg (RetrievePodsInteractions_query cfg name isOrphan) = Inl err \<longrightarrow>
      RetrievePodsInteractions cfg dg name isOrphan w =
        ([], Errorf (Errorf_interactions name isOrphan err)
               (call_store (RetrievePodsInteractions_query cfg name isOrphan) w))"
    by (simp add: RetrievePodsInteractions_def Let_def)
  have hierarchy: "name \<noteq> All_const cfg \<and>
      ExecuteQueryParent dg (RetrievePodHierarchy_query name) = Inl err \<longrightarrow>
      RetrievePodHierarchy cfg dg name w =
        (None, Errorf (Errorf_getJSONDataFromQuery err)
                 (call_store (RetrievePodHierarchy_query name) w))"
    by (simp add: RetrievePodHierarchy_def getJSONDataFromQuery_failure)
  have labels: "ExecuteQuery dg (RetrievePodsUIDsByLabelsFilter_query
                         (filter_text (createFilterFromListOfLabels labels))) = Inl err \<longrightarrow>
      fst (RetrievePodsUIDsByLabelsFilter filter_text dg labels w) = Inl err
      \<and> logged (snd (RetrievePodsUIDsByLabelsFilter filter_text dg labels w)) = logged w"
    by (simp add: RetrievePodsUIDsByLabelsFilter_def Let_def call_store_def)
  have live: "ExecuteQuery dg RetrievePodsInteractionsForAllLivePodsWithCount_query = Inl err \<longrightarrow>
      fst (RetrievePodsInteractionsForAllLivePodsWithCount dg w) = Inl err
      \<and> logged (snd (RetrievePodsInteractionsForAllLivePodsWithCount dg w)) = logged w"
    by (simp add: RetrievePodsInteractionsForAllLivePodsWithCount_def Let_def call_store_def)
  show ?thesis
    using interactions hierarchy labels live RetrievePodMetrics_failure [of name cfg dg seconds w err]
    by blast
qed

theorem store_failure_policy_witness:
  "ExecuteQueryRaw (failing_dgraph (Error ''unavailable''))
       (RetrievePodsInteractions_query (example_config ''all'') ''web'' False) = Inl (Error ''unavailable'')
   \<and> ''web'' \<noteq> All_const (example_config ''all'')
   \<and> ExecuteQueryParent (failing_dgraph (Error ''unavailable'')) (RetrievePodHierarchy_query ''web'')
       = Inl (Error ''unavailable'')
   \<and> ExecuteQueryParent (failing_dgraph (Error ''unavailable''))
        (last (calls (snd (RetrievePodMetrics (example_config ''all'')
           (failing_dgraph (Error ''unavailable'')) 864000 ''web'' initial_world))))
       = Inl (Error ''unavailable'')
   \<and> ExecuteQuery (failing_dgraph (Error ''unavailable''))
        (RetrievePodsUIDsByLabelsFilter_query
           (example_filter_text (createFilterFromListOfLabels [(''env'', [''prod''])])))
       = Inl (Error ''unavailable'')
   \<and> ExecuteQuery (failing_dgraph (Error ''unavailable''))
        RetrievePodsInteractionsForAllLivePodsWithCount_query = Inl (Error ''unavailable'')
   \<and> RetrievePodsInteractions (example_config ''all'') (failing_dgraph (Error ''unavailable''))
        ''web'' False initial_world
       = ([], \<lparr>calls = [RetrievePodsInteractions_query (example_config ''all'') ''web'' False],
                logged = [Errorf_interactions ''web'' False (Error ''unavailable'')]\<rparr>)
   \<and> fst (RetrievePodHierarchy (example_config ''all'') (failing_dgraph (Error ''unavailable''))
        ''web'' initial_world) = None
   \<and> fst (RetrievePodMetrics (example_config ''all'') (failing_dgraph (Error ''unavailable''))
        864000 ''web'' initial_world) = Inr None
   \<and> fst (RetrievePodsUIDsByLabelsFilter example_filter_text (failing_dgraph (Error ''unavailable''))
        [(''env'', [''prod''])] initial_world) = Inl (Error ''unavailable'')
   \<and> fst (RetrievePodsInteractionsForAllLivePodsWithCount (failing_dgraph (Error ''unavailable''))
        initial_world) = Inl (Error ''unavailable'')"
  using store_failure_policy [of "failing_dgraph (Error ''unavailable'')" "example_config ''all''"
      "''web''" False "Error ''unavailable''" initial_world 864000 example_filter_text
      "[(''env'', [''prod''])]"]
  by (simp add: failing_dgraph_def example_config_def initial_world_def Errorf_def call_store_def)

subsection \<open>The request of the metrics\<close>

text \<open>
  The whole evaluation of the parent's lines and of a child's lines, for spliced texts
  that are numerals: every variable and every named value, in closed form.
\<close>

lemma parent_eval:
  assumes "read_number secondsSinceMonthStart = Some S"
    and "read_number cpuPrice = Some pc"
    and "read_number memoryPrice = Some pm"
    and "read_number storagePrice = Some ps"
  shows "eval_items now n
           (request_items (RetrievePodMetrics_request name secondsSinceMonthStart cpuPrice
              memoryPrice storagePrice))
     = ([(''durationInHours'',
            (min (now - startTime n) S -
             (case endTime n of None \<Rightarrow> 0 | Some et \<Rightarrow> now - et)) / 3600),
         (''secondsSinceEnd'', (case endTime n of None \<Rightarrow> 0 | Some et \<Rightarrow> now - et)),
         (''isTerminated'', (case endTime n of None \<Rightarrow> 0 | Some et \<Rightarrow> 1))] @
        (case endTime n of None \<Rightarrow> [] | Some et \<Rightarrow> [(''et'', et)]) @
        [(''secondsSinceStart'', min (now - startTime n) S),
         (''stSeconds'', now - startTime n),
         (''st'', startTime n),
         (''pvcStorage'', storageRequest n),
         (''podMemory'', memoryRequest n),
         (''podCpu'', cpuRequest n)],
        [(''name'', Text (node_name n)),
         (''cpu'', Number (cpuRequest n)),
         (''memory'', Number (memoryRequest n)),
         (''storage'', Number (storageRequest n)),
         (''cpuCost'', Number (cpuRequest n *
             ((min (now - startTime n) S -
               (case endTime n of None \<Rightarrow> 0 | Some et \<Rightarrow> now - et)) / 3600) * pc)),
         (''memoryCost'', Number (memoryRequest n *
             ((min (now - startTime n) S -
               (case endTime n of None \<Rightarrow> 0 | Some et \<Rightarrow> now - et)) / 3600) * pm)),
         (''storageCost'', Number (storageRequest n *
             ((min (now - startTime n) S -
               (case endTime n of None \<Rightarrow> 0 | Some et \<Rightarrow> now - et)) / 3600) * ps))])"
  using assms
  by (cases "endTime n")
     (simp_all add: eval_items_def RetrievePodMetrics_request_def
        RetrievePodMetrics_parent_items_def attr_simps count_of_endTime read_number_constants
        min_def)

lemma children_items:
  "edge_items ''children''
     (request_items (RetrievePodMetrics_request name secondsSinceMonthStart cpuPrice memoryPrice
        storagePrice))
   = RetrievePodMetrics_children_items secondsSinceMonthStart cpuPrice memoryPrice"
  by (simp add: RetrievePodMetrics_request_def)

lemma child_eval:
  assumes "read_number secondsSinceMonthStart = Some S"
    and "read_number cpuPrice = Some pc"
    and "read_number memoryPrice = Some pm"
  shows "eval_items now c
           (RetrievePodMetrics_children_items secondsSinceMonthStart cpuPrice memoryPrice)
     = ([(''memory'', memoryRequest c),
         (''cpu'', cpuRequest c),
         (''durationInHoursChild'',
            (min (now - startTime c) S -
             (case endTime c of None \<Rightarrow> 0 | Some et \<Rightarrow> now - et)) / 3600),
         (''secondsSinceEndChild'', (case endTime c of None \<Rightarrow> 0 | Some et \<Rightarrow> now - et)),
         (''isTerminatedChild'', (case endTime c of None \<Rightarrow> 0 | Some et \<Rightarrow> 1))] @
        (case endTime c of None \<Rightarrow> [] | Some et \<Rightarrow> [(''etChild'', et)]) @
        [(''secondsSinceStartChild'', min (now - startTime c) S),
         (''stSecondsChild'', now - startTime c),
         (''stChild'', startTime c)],
        [(''name'', Text (node_name c)),
         (''cpu'', Number (cpuRequest c)),
         (''memory'', Number (memoryRequest c)),
         (''cpuCost'', Number (cpuRequest c *
             ((min (now - startTime c) S -
               (case endTime c of None \<Rightarrow> 0 | Some et \<Rightarrow> now - et)) / 3600) * pc)),
         (''memoryCost'', Number (memoryRequest c *
             ((min (now - startTime c) S -
               (case endTime c of None \<Rightarrow> 0 | Some et \<Rightarrow> now - et)) / 3600) * pm))])"
  using assms
  by (cases "endTime c")
     (simp_all add: eval_items_def RetrievePodMetrics_children_items_def attr_simps
        count_of_endTime read_number_constants min_def)

lemma RetrievePodMetrics_sends:
  assumes "name \<noteq> All_const cfg"
    and "getPricePerResourceForPod cfg dg name w =
           (Inr (cpuPriceInFloat64, memoryPriceInFloat64), w1)"
  shows "calls (snd (RetrievePodMetrics cfg dg seconds name w)) =
      calls w1 @
      [render_request
         (RetrievePodMetrics_request name (Sprintf_f cfg seconds)
            (FormatFloat_f_11 cfg cpuPriceInFloat64) (FormatFloat_f_11 cfg memoryPriceInFloat64)
            (DefaultStorageCostPerGBPerHour cfg))]"
  by (simp add: RetrievePodMetrics_named [OF assms] getJSONDataFromQuery_calls
      render_RetrievePodMetrics_request)

text \<open>The example run: the pod \<open>web\<close>, no recorded prices, 864000 seconds into the month.\<close>

lemma example_texts:
  "Sprintf_f (example_config all) 864000 = ''864000.000000''"
  "FormatFloat_f_11 (example_config all) (DefaultCPUCostInFloat64 (example_config all))
     = ''0.02400000000''"
  "FormatFloat_f_11 (example_config all) (DefaultMemCostInFloat64 (example_config all))
     = ''0.01000000000''"
  "DefaultStorageCostPerGBPerHour (example_config all) = ''0.00013888888''"
  by (simp_all add: example_config_def example_FormatFloat_def example_Sprintf_def)

lemma example_lookup:
  "getPricePerResourceForPod (example_config all) (answering_dgraph raw []) name initial_world
     = (Inr (DefaultCPUCostInFloat64 (example_config all),
             DefaultMemCostInFloat64 (example_config all)),
        \<lparr>calls = [getPricePerResourceForPod_query name], logged = []\<rparr>)"
  by (simp add: getPricePerResourceForPod_def Let_def answering_dgraph_def call_store_def
      initial_world_def)

lemma example_sends:
  "calls (snd (RetrievePodMetrics (example_config ''all'') (answering_dgraph [] []) 864000
        ''web'' initial_world))
     = [getPricePerResourceForPod_query ''web'',
        render_request (RetrievePodMetrics_request ''web'' ''864000.000000'' ''0.02400000000''
          ''0.01000000000'' ''0.00013888888'')]"
proof -
  have named: "''web'' \<noteq> All_const (example_config ''all'')"
    by (simp add: example_config_def)
  show ?thesis
    using RetrievePodMetrics_sends [where seconds = 864000, OF named example_lookup]
    by (simp add: example_texts)
qed

subsection \<open>Elapsed time in the billing window\<close>

text \<open>
  C4. For a target other than the wildcard, \<open>RetrievePodMetrics\<close> sends, after the price
  lookup, the request of lines 110 to 143 with the formatted seconds and prices spliced
  in. When the name has no double quote and no backslash and the spliced texts are
  numerals, \<open>S\<close> being the number read from the seconds, then in that request, for the
  parent and for each child, the seconds counted from the start are
  \<open>min (now - startTime) S\<close>. For a node without \<open>endTime\<close> that started before the window
  (\<open>startTime < now - S\<close>) the duration in hours is \<open>S / 3600\<close>; for a node without
  \<open>endTime\<close> with \<open>now - startTime < S\<close> it is \<open>(now - startTime) / 3600\<close>. For every node
  the duration is the time from the later of the start and the window start to the end
  (to \<open>now\<close> for a node without \<open>endTime\<close>), in hours. The clip is on the start only: for a
  node that ended before the window started, the duration is negative.
\<close>

theorem elapsed_seconds_clipped_to_billing_window:
  assumes "name \<noteq> All_const cfg" and "plain name"
    and "getPricePerResourceForPod cfg dg name w =
           (Inr (cpuPriceInFloat64, memoryPriceInFloat64), w1)"
    and "request = RetrievePodMetrics_request name (Sprintf_f cfg seconds)
           (FormatFloat_f_11 cfg cpuPriceInFloat64) (FormatFloat_f_11 cfg memoryPriceInFloat64)
           (DefaultStorageCostPerGBPerHour cfg)"
    and "read_number (Sprintf_f cfg seconds) = Some S"
    and "read_number (FormatFloat_f_11 cfg cpuPriceInFloat64) = Some pc"
    and "read_number (FormatFloat_f_11 cfg memoryPriceInFloat64) = Some pm"
    and "read_number (DefaultStorageCostPerGBPerHour cfg) = Some ps"
  shows "calls (snd (RetrievePodMetrics cfg dg seconds name w)) = calls w1 @ [render_request request]
    \<and> variable now n (request_items request) ''secondsSinceStart''
        = Some (min (now - startTime n) S)
    \<and> variable now c (edge_items ''children'' (request_items request)) ''secondsSinceStartChild''
        = Some (min (now - startTime c) S)
    \<and> (endTime n1 = None \<and> startTime n1 < now - S \<longrightarrow>
         variable now n1 (request_items request) ''durationInHours'' = Some (S / 3600))
    \<and> (endTime n2 = None \<and> now - startTime n2 < S \<longrightarrow>
         variable now n2 (request_items request) ''durationInHours''
           = Some ((now - startTime n2) / 3600))
    \<and> (endTime c1 = None \<and> startTime c1 < now - S \<longrightarrow>
         variable now c1 (edge_items ''children'' (request_items request)) ''durationInHoursChild''
           = Some (S / 3600))
    \<and> (endTime c2 = None \<and> now - startTime c2 < S \<longrightarrow>
         variable now c2 (edge_items ''children'' (request_items request)) ''durationInHoursChild''
           = Some ((now - startTime c2) / 3600))
    \<and> variable now n (request_items request) ''durationInHours''
        = Some (((case endTime n of None \<Rightarrow> now | Some et \<Rightarrow> et) - max (startTime n) (now - S))
                / 3600)
    \<and> variable now c (edge_items ''children'' (request_items request)) ''durationInHoursChild''
        = Some (((case endTime c of None \<Rightarrow> now | Some et \<Rightarrow> et) - max (startTime c) (now - S))
                / 3600)
    \<and> (endTime n3 = Some et \<and> et < now - S \<longrightarrow>
         variable now n3 (request_items request) ''durationInHours''
           = Some ((et - max (startTime n3) (now - S)) / 3600)
         \<and> (et - max (startTime n3) (now - S)) / 3600 < 0)
    \<and> (endTime c3 = Some et \<and> et < now - S \<longrightarrow>
         variable now c3 (edge_items ''children'' (request_items request)) ''durationInHoursChild''
           = Some ((et - max (startTime c3) (now - S)) / 3600)
         \<and> (et - max (startTime c3) (now - S)) / 3600 < 0)"
proof -
  note sent = RetrievePodMetrics_sends [where seconds = seconds, OF assms(1) assms(3)]
  note parent = parent_eval [OF assms(5-8), of now _ name]
  note child = child_eval [OF assms(5-7), of now]
  have start: "variable now m (request_items request) ''secondsSinceStart''
      = Some (min (now - startTime m) S)" for m
    by (cases "endTime m") (simp_all add: variable_def assms(4) parent)
  have startChild: "variable now m (edge_items ''children'' (request_items request))
      ''secondsSinceStartChild'' = Some (min (now - startTime m) S)" for m
    by (cases "endTime m") (simp_all add: variable_def assms(4) children_items child)
  have duration: "variable now m (request_items request) ''durationInHours''
      = Some ((min (now - startTime m) S -
               (case endTime m of None \<Rightarrow> 0 | Some et \<Rightarrow> now - et)) / 3600)" for m
    by (simp add: variable_def assms(4) parent)
  have durationChild: "variable now m (edge_items ''children'' (request_items request))
      ''durationInHoursChild''
      = Some ((min (now - startTime m) S -
               (case endTime m of None \<Rightarrow> 0 | Some et \<Rightarrow> now - et)) / 3600)" for m
    by (simp add: variable_def assms(4) children_items child)
  have interval: "min (now - startTime m) S - (case endTime m of None \<Rightarrow> 0 | Some et \<Rightarrow> now - et)
      = (case endTime m of None \<Rightarrow> now | Some et \<Rightarrow> et) - max (startTime m) (now - S)"
    for m :: node
    by (cases "endTime m") (auto simp: min_def max_def)
  have sent': "calls (snd (RetrievePodMetrics cfg dg seconds name w))
      = calls w1 @ [render_request request]"
    using sent by (simp add: assms(4))
  have before: "variable now m (request_items request) ''durationInHours'' = Some (S / 3600)"
    if "endTime m = None" "startTime m < now - S" for m
    using that by (simp add: duration min_def)
  have inside: "variable now m (request_items request) ''durationInHours''
      = Some ((now - startTime m) / 3600)"
    if "endTime m = None" "now - startTime m < S" for m
    using that by (simp add: duration min_def)
  have beforeChild: "variable now m (edge_items ''children'' (request_items request))
      ''durationInHoursChild'' = Some (S / 3600)"
    if "endTime m = None" "startTime m < now - S" for m
    using that by (simp add: durationChild min_def)
  have insideChild: "variable now m (edge_items ''children'' (request_items request))
      ''durationInHoursChild'' = Some ((now - startTime m) / 3600)"
    if "endTime m = None" "now - startTime m < S" for m
    using that by (simp add: durationChild min_def)
  have whole: "variable now m (request_items request) ''durationInHours''
      = Some (((case endTime m of None \<Rightarrow> now | Some et \<Rightarrow> et) - max (startTime m) (now - S))
              / 3600)" for m
    by (simp only: duration interval)
  have wholeChild: "variable now m (edge_items ''children'' (request_items request))
      ''durationInHoursChild''
      = Some (((case endTime m of None \<Rightarrow> now | Some et \<Rightarrow> et) - max (startTime m) (now - S))
              / 3600)" for m
    by (simp only: durationChild interval)
  have ended: "variable now m (request_items request) ''durationInHours''
        = Some ((et - max (startTime m) (now - S)) / 3600)
      \<and> (et - max (startTime m) (now - S)) / 3600 < 0"
    if "endTime m = Some et" "et < now - S" for m
    using that by (simp add: whole max_def)
  have endedChild: "variable now m (edge_items ''children'' (request_items request))
        ''durationInHoursChild''
        = Some ((et - max (startTime m) (now - S)) / 3600)
      \<and> (et - max (startTime m) (now - S)) / 3600 < 0"
    if "endTime m = Some et" "et < now - S" for m
    using that by (simp add: wholeChild max_def)
  show ?thesis
    using sent' start startChild before inside beforeChild insideChild whole wholeChild
      ended endedChild
    by blast
qed

theorem elapsed_seconds_clipped_to_billing_window_witness:
  "''web'' \<noteq> All_const (example_config ''all'')
   \<and> plain ''web''
   \<and> getPricePerResourceForPod (example_config ''all'') (answering_dgraph [] []) ''web''
        initial_world
       = (Inr (DefaultCPUCostInFloat64 (example_config ''all''),
               DefaultMemCostInFloat64 (example_config ''all'')),
          \<lparr>calls = [getPricePerResourceForPod_query ''web''], logged = []\<rparr>)
   \<and> read_number (Sprintf_f (example_config ''all'') 864000) = Some 864000
   \<and> read_number (FormatFloat_f_11 (example_config ''all'')
        (DefaultCPUCostInFloat64 (example_config ''all''))) = Some (24 / 1000)
   \<and> read_number (FormatFloat_f_11 (example_config ''all'')
        (DefaultMemCostInFloat64 (example_config ''all''))) = Some (1 / 100)
   \<and> read_number (DefaultStorageCostPerGBPerHour (example_config ''all''))
       = Some (13888888 / 100000000000)
   \<and> endTime (example_pod\<lparr>startTime := 100000\<rparr>) = None
   \<and> startTime (example_pod\<lparr>startTime := 100000\<rparr>) < 1000000 - 864000
   \<and> endTime example_pod = None
   \<and> 1000000 - startTime example_pod < 864000
   \<and> calls (snd (RetrievePodMetrics (example_config ''all'') (answering_dgraph [] []) 864000
        ''web'' initial_world))
       = [getPricePerResourceForPod_query ''web'',
          render_request (RetrievePodMetrics_request ''web'' ''864000.000000'' ''0.02400000000''
            ''0.01000000000'' ''0.00013888888'')]
   \<and> variable 1000000 (example_pod\<lparr>startTime := 100000\<rparr>)
        (request_items (RetrievePodMetrics_request ''web'' ''864000.000000'' ''0.02400000000''
            ''0.01000000000'' ''0.00013888888'')) ''durationInHours'' = Some 240
   \<and> variable 1000000 example_pod
        (request_items (RetrievePodMetrics_request ''web'' ''864000.000000'' ''0.02400000000''
            ''0.01000000000'' ''0.00013888888'')) ''durationInHours'' = Some (500000 / 3600)
   \<and> variable 1000000 (example_pod\<lparr>startTime := 100000\<rparr>)
        (edge_items ''children''
          (request_items (RetrievePodMetrics_request ''web'' ''864000.000000'' ''0.02400000000''
            ''0.01000000000'' ''0.00013888888''))) ''durationInHoursChild'' = Some 240
   \<and> variable 1000000 example_pod
        (edge_items ''children''
          (request_items (RetrievePodMetrics_request ''web'' ''864000.000000'' ''0.02400000000''
            ''0.01000000000'' ''0.00013888888''))) ''durationInHoursChild''
       = Some (500000 / 3600)
   \<and> endTime (example_pod\<lparr>startTime := 100000, endTime := Some 120000\<rparr>) = Some 120000
   \<and> (120000 :: real) < 1000000 - 864000
   \<and> variable 1000000 (example_pod\<lparr>startTime := 100000, endTime := Some 120000\<rparr>)
        (request_items (RetrievePodMetrics_request ''web'' ''864000.000000'' ''0.02400000000''
            ''0.01000000000'' ''0.00013888888'')) ''durationInHours'' = Some (- (40 / 9))
   \<and> variable 1000000 (example_pod\<lparr>startTime := 100000, endTime := Some 120000\<rparr>)
        (edge_items ''children''
          (request_items (RetrievePodMetrics_request ''web'' ''864000.000000'' ''0.02400000000''
            ''0.01000000000'' ''0.00013888888''))) ''durationInHoursChild'' = Some (- (40 / 9))"
proof -
  let ?cfg = "example_config ''all''"
  have named: "''web'' \<noteq> All_const ?cfg"
    by (simp add: example_config_def)
  have numbers: "read_number (Sprintf_f ?cfg 864000) = Some 864000"
    "read_number (FormatFloat_f_11 ?cfg (DefaultCPUCostInFloat64 ?cfg)) = Some (24 / 1000)"
    "read_number (FormatFloat_f_11 ?cfg (DefaultMemCostInFloat64 ?cfg)) = Some (1 / 100)"
    "read_number (DefaultStorageCostPerGBPerHour ?cfg) = Some (13888888 / 100000000000)"
    by (simp_all add: example_texts read_number_examples)
  have nodes: "endTime (example_pod\<lparr>startTime := 100000\<rparr>) = None"
    "startTime (example_pod\<lparr>startTime := 100000\<rparr>) < 1000000 - 864000"
    "endTime example_pod = None"
    "1000000 - startTime example_pod < 864000"
    by (simp_all add: example_pod_def)
  have started: "startTime example_pod = 500000"
    by (simp add: example_pod_def)
  have ended: "endTime (example_pod\<lparr>startTime := 100000, endTime := Some 120000\<rparr>) = Some 120000"
    "(120000 :: real) < 1000000 - 864000"
    by simp_all
  note inst = elapsed_seconds_clipped_to_billing_window
    [where now = 1000000 and n = example_pod and c = example_pod
      and ?n1.0 = "example_pod\<lparr>startTime := 100000\<rparr>" and ?n2.0 = example_pod
      and ?c1.0 = "example_pod\<lparr>startTime := 100000\<rparr>" and ?c2.0 = example_pod
      and ?n3.0 = "example_pod\<lparr>startTime := 100000, endTime := Some 120000\<rparr>"
      and ?c3.0 = "example_pod\<lparr>startTime := 100000, endTime := Some 120000\<rparr>"
      and et = 120000,
     OF named plain_web example_lookup refl numbers]
  show ?thesis
    using inst nodes named plain_web numbers ended
    by (simp add: example_texts example_lookup started)
qed

text \<open>
  C5, as stated, fails in its second half. \<open>since(et)\<close> is \<open>now - endTime\<close> on the clock of
  the store, and nothing in the request keeps it positive: in the request that
  \<open>RetrievePodMetrics\<close> sends for the pod \<open>web\<close>, for a pod whose \<open>endTime\<close> is the moment of
  the evaluation the duration equals that of the same pod without \<open>endTime\<close>, and for an
  \<open>endTime\<close> sixty seconds ahead of the store's clock it is larger.
\<close>

theorem terminated_duration_not_less_counterexample:
  "calls (snd (RetrievePodMetrics (example_config ''all'') (answering_dgraph [] []) 864000
        ''web'' initial_world))
     = [getPricePerResourceForPod_query ''web'',
        render_request (RetrievePodMetrics_request ''web'' ''864000.000000'' ''0.02400000000''
          ''0.01000000000'' ''0.00013888888'')]
   \<and> variable 1000000 (example_pod\<lparr>endTime := Some 1000000\<rparr>)
        (request_items (RetrievePodMetrics_request ''web'' ''864000.000000'' ''0.02400000000''
          ''0.01000000000'' ''0.00013888888'')) ''durationInHours'' = Some (500000 / 3600)
   \<and> variable 1000000 example_pod
        (request_items (RetrievePodMetrics_request ''web'' ''864000.000000'' ''0.02400000000''
          ''0.01000000000'' ''0.00013888888'')) ''durationInHours'' = Some (500000 / 3600)
   \<and> variable 1000000 (example_pod\<lparr>endTime := Some 1000060\<rparr>)
        (request_items (RetrievePodMetrics_request ''web'' ''864000.000000'' ''0.02400000000''
          ''0.01000000000'' ''0.00013888888'')) ''durationInHours'' = Some (500060 / 3600)
   \<and> (example_pod\<lparr>endTime := Some 1000000\<rparr>)\<lparr>endTime := None\<rparr> = example_pod
   \<and> (example_pod\<lparr>endTime := Some 1000060\<rparr>)\<lparr>endTime := None\<rparr> = example_pod"
proof -
  note vals = parent_eval [OF read_number_examples(1) read_number_examples(2)
      read_number_examples(3) read_number_examples(5), of 1000000 _ "''web''"]
  have "variable 1000000 (example_pod\<lparr>endTime := Some 1000000\<rparr>)
        (request_items (RetrievePodMetrics_request ''web'' ''864000.000000'' ''0.02400000000''
          ''0.01000000000'' ''0.00013888888'')) ''durationInHours'' = Some (500000 / 3600)"
    by (simp add: variable_def vals example_pod_def)
  moreover have "variable 1000000 example_pod
        (request_items (RetrievePodMetrics_request ''web'' ''864000.000000'' ''0.02400000000''
          ''0.01000000000'' ''0.00013888888'')) ''durationInHours'' = Some (500000 / 3600)"
    by (simp add: variable_def vals example_pod_def)
  moreover have "variable 1000000 (example_pod\<lparr>endTime := Some 1000060\<rparr>)
        (request_items (RetrievePodMetrics_request ''web'' ''864000.000000'' ''0.02400000000''
          ''0.01000000000'' ''0.00013888888'')) ''durationInHours'' = Some (500060 / 3600)"
    by (simp add: variable_def vals example_pod_def)
  moreover have "(example_pod\<lparr>endTime := Some 1000000\<rparr>)\<lparr>endTime := None\<rparr> = example_pod"
    "(example_pod\<lparr>endTime := Some 1000060\<rparr>)\<lparr>endTime := None\<rparr> = example_pod"
    by (simp_all add: example_pod_def)
  ultimately show ?thesis
    using example_sends by blast
qed

text \<open>
  C5, amended. In the request that \<open>RetrievePodMetrics\<close> sends (under the conditions of
  C4), for every node with an \<open>endTime\<close>, parent or child, the seconds since the end are
  \<open>now - endTime\<close> and the duration in hours is
  \<open>(secondsSinceStart - (now - endTime)) / 3600\<close>; when the \<open>endTime\<close> lies before the
  moment of the evaluation, this is strictly less than the duration of the node that
  differs only in having no \<open>endTime\<close>.
\<close>

theorem terminated_node_duration:
  assumes "name \<noteq> All_const cfg" and "plain name"
    and "getPricePerResourceForPod cfg dg name w =
           (Inr (cpuPriceInFloat64, memoryPriceInFloat64), w1)"
    and "request = RetrievePodMetrics_request name (Sprintf_f cfg seconds)
           (FormatFloat_f_11 cfg cpuPriceInFloat64) (FormatFloat_f_11 cfg memoryPriceInFloat64)
           (DefaultStorageCostPerGBPerHour cfg)"
    and "read_number (Sprintf_f cfg seconds) = Some S"
    and "read_number (FormatFloat_f_11 cfg cpuPriceInFloat64) = Some pc"
    and "read_number (FormatFloat_f_11 cfg memoryPriceInFloat64) = Some pm"
    and "read_number (DefaultStorageCostPerGBPerHour cfg) = Some ps"
    and "endTime n = Some et"
  shows "calls (snd (RetrievePodMetrics cfg dg seconds name w)) = calls w1 @ [render_request request]
    \<and> (\<exists>sss d d0.
          variable now n (request_items request) ''secondsSinceStart'' = Some sss
        \<and> variable now n (request_items request) ''secondsSinceEnd'' = Some (now - et)
        \<and> variable now n (request_items request) ''durationInHours'' = Some d
        \<and> d = (sss - (now - et)) / 3600
        \<and> variable now (n\<lparr>endTime := None\<rparr>) (request_items request) ''durationInHours''
            = Some d0
        \<and> (et < now \<longrightarrow> d < d0))
    \<and> (\<exists>sss d d0.
          variable now n (edge_items ''children'' (request_items request))
            ''secondsSinceStartChild'' = Some sss
        \<and> variable now n (edge_items ''children'' (request_items request))
            ''secondsSinceEndChild'' = Some (now - et)
        \<and> variable now n (edge_items ''children'' (request_items request))
            ''durationInHoursChild'' = Some d
        \<and> d = (sss - (now - et)) / 3600
        \<and> variable now (n\<lparr>endTime := None\<rparr>) (edge_items ''children'' (request_items request))
            ''durationInHoursChild'' = Some d0
        \<and> (et < now \<longrightarrow> d < d0))"
proof -
  note parent = parent_eval [OF assms(5-8), of now _ name]
  note child = child_eval [OF assms(5-7), of now]
  let ?sss = "min (now - startTime n) S"
  have sent: "calls (snd (RetrievePodMetrics cfg dg seconds name w))
      = calls w1 @ [render_request request]"
    using RetrievePodMetrics_sends [where seconds = seconds, OF assms(1) assms(3)]
    by (simp add: assms(4))
  have "(x - (now - et)) / 3600 < x / 3600" if "et < now" for x :: real
    using that by (simp add: divide_strict_right_mono)
  then have less: "et < now \<longrightarrow> (?sss - (now - et)) / 3600 < ?sss / 3600"
    by blast
  have p: "variable now n (request_items request) ''secondsSinceStart'' = Some ?sss"
    "variable now n (request_items request) ''secondsSinceEnd'' = Some (now - et)"
    "variable now n (request_items request) ''durationInHours''
       = Some ((?sss - (now - et)) / 3600)"
    "variable now (n\<lparr>endTime := None\<rparr>) (request_items request) ''durationInHours''
       = Some (?sss / 3600)"
    by (simp_all add: variable_def assms(4) parent assms(9))
  have c: "variable now n (edge_items ''children'' (request_items request))
        ''secondsSinceStartChild'' = Some ?sss"
    "variable now n (edge_items ''children'' (request_items request))
        ''secondsSinceEndChild'' = Some (now - et)"
    "variable now n (edge_items ''children'' (request_items request))
        ''durationInHoursChild'' = Some ((?sss - (now - et)) / 3600)"
    "variable now (n\<lparr>endTime := None\<rparr>) (edge_items ''children'' (request_items request))
        ''durationInHoursChild'' = Some (?sss / 3600)"
    by (simp_all add: variable_def assms(4) children_items child assms(9))
  show ?thesis
    using sent less p c by blast
qed

theorem terminated_node_duration_witness:
  "''web'' \<noteq> All_const (example_config ''all'')
   \<and> plain ''web''
   \<and> getPricePerResourceForPod (example_config ''all'') (answering_dgraph [] []) ''web''
        initial_world
       = (Inr (DefaultCPUCostInFloat64 (example_config ''all''),
               DefaultMemCostInFloat64 (example_config ''all'')),
          \<lparr>calls = [getPricePerResourceForPod_query ''web''], logged = []\<rparr>)
   \<and> read_number (Sprintf_f (example_config ''all'') 864000) = Some 864000
   \<and> read_number (FormatFloat_f_11 (example_config ''all'')
        (DefaultCPUCostInFloat64 (example_config ''all''))) = Some (24 / 1000)
   \<and> read_number (FormatFloat_f_11 (example_config ''all'')
        (DefaultMemCostInFloat64 (example_config ''all''))) = Some (1 / 100)
   \<and> read_number (DefaultStorageCostPerGBPerHour (example_config ''all''))
       = Some (13888888 / 100000000000)
   \<and> endTime (example_pod\<lparr>endTime := Some 900000\<rparr>) = Some 900000
   \<and> (900000 :: real) < 1000000
   \<and> variable 1000000 (example_pod\<lparr>endTime := Some 900000\<rparr>)
        (request_items (RetrievePodMetrics_request ''web'' ''864000.000000'' ''0.02400000000''
          ''0.01000000000'' ''0.00013888888'')) ''durationInHours'' = Some (400000 / 3600)
   \<and> variable 1000000 ((example_pod\<lparr>endTime := Some 900000\<rparr>)\<lparr>endTime := None\<rparr>)
        (request_items (RetrievePodMetrics_request ''web'' ''864000.000000'' ''0.02400000000''
          ''0.01000000000'' ''0.00013888888'')) ''durationInHours'' = Some (500000 / 3600)"
proof -
  let ?cfg = "example_config ''all''"
  let ?n = "example_pod\<lparr>endTime := Some 900000\<rparr>"
  let ?items = "request_items (RetrievePodMetrics_request ''web'' ''864000.000000''
      ''0.02400000000'' ''0.01000000000'' ''0.00013888888'')"
  have named: "''web'' \<noteq> All_const ?cfg"
    by (simp add: example_config_def)
  have numbers: "read_number (Sprintf_f ?cfg 864000) = Some 864000"
    "read_number (FormatFloat_f_11 ?cfg (DefaultCPUCostInFloat64 ?cfg)) = Some (24 / 1000)"
    "read_number (FormatFloat_f_11 ?cfg (DefaultMemCostInFloat64 ?cfg)) = Some (1 / 100)"
    "read_number (DefaultStorageCostPerGBPerHour ?cfg) = Some (13888888 / 100000000000)"
    by (simp_all add: example_texts read_number_examples)
  have ended: "endTime ?n = Some 900000"
    by simp
  have started: "startTime example_pod = 500000"
    by (simp add: example_pod_def)
  have earlier: "(900000 :: real) < 1000000"
    by simp
  note inst = terminated_node_duration [where now = 1000000 and n = "?n" and seconds = 864000,
      OF named plain_web example_lookup refl numbers ended]
  note direct = parent_eval [OF read_number_examples(1) read_number_examples(2)
      read_number_examples(3) read_number_examples(5), of 1000000 _ "''web''"]
  have terminated: "variable 1000000 ?n ?items ''durationInHours'' = Some (400000 / 3600)"
    by (simp add: variable_def direct started)
  have running: "variable 1000000 (?n\<lparr>endTime := None\<rparr>) ?items ''durationInHours''
      = Some (500000 / 3600)"
    by (simp add: variable_def direct started)
  show ?thesis
    using inst named plain_web example_lookup numbers ended earlier terminated running
    by blast
qed

subsection \<open>Costs\<close>

text \<open>
  C6. For a target other than the wildcard, the request that \<open>RetrievePodMetrics\<close> sends
  after the price lookup carries the formatted seconds, the two prices that
  \<open>getPricePerResourceForPod\<close> returned for the target, formatted with eleven decimals,
  and the default storage price. When the name has no double quote and no backslash and
  these texts are numerals, the answer for the parent carries the three quantities and,
  for each, the cost: quantity times duration in hours times unit price, the unit price
  being the number read from the formatted CPU price, from the formatted memory price,
  and from the default storage price. The answer for a child carries the CPU and the
  memory cost, formed in the same way from the child's quantities and duration with the
  same two prices, and no storage cost.
\<close>

theorem metrics_costs:
  assumes "name \<noteq> All_const cfg" and "plain name"
    and "getPricePerResourceForPod cfg dg name w =
           (Inr (cpuPriceInFloat64, memoryPriceInFloat64), w1)"
    and "request = RetrievePodMetrics_request name (Sprintf_f cfg seconds)
           (FormatFloat_f_11 cfg cpuPriceInFloat64) (FormatFloat_f_11 cfg memoryPriceInFloat64)
           (DefaultStorageCostPerGBPerHour cfg)"
    and "read_number (Sprintf_f cfg seconds) = Some S"
    and "read_number (FormatFloat_f_11 cfg cpuPriceInFloat64) = Some pc"
    and "read_number (FormatFloat_f_11 cfg memoryPriceInFloat64) = Some pm"
    and "read_number (DefaultStorageCostPerGBPerHour cfg) = Some ps"
  shows "calls (snd (RetrievePodMetrics cfg dg seconds name w)) = calls w1 @ [render_request request]
    \<and> (\<exists>d. variable now n (request_items request) ''durationInHours'' = Some d
        \<and> answer_value now n (request_items request) ''cpu'' = Some (Number (cpuRequest n))
        \<and> answer_value now n (request_items request) ''memory'' = Some (Number (memoryRequest n))
        \<and> answer_value now n (request_items request) ''storage''
            = Some (Number (storageRequest n))
        \<and> answer_value now n (request_items request) ''cpuCost''
            = Some (Number (cpuRequest n * d * pc))
        \<and> answer_value now n (request_items request) ''memoryCost''
            = Some (Number (memoryRequest n * d * pm))
        \<and> answer_value now n (request_items request) ''storageCost''
            = Some (Number (storageRequest n * d * ps)))
    \<and> (\<exists>d. variable now c (edge_items ''children'' (request_items request))
            ''durationInHoursChild'' = Some d
        \<and> answer_value now c (edge_items ''children'' (request_items request)) ''cpu''
            = Some (Number (cpuRequest c))
        \<and> answer_value now c (edge_items ''children'' (request_items request)) ''memory''
            = Some (Number (memoryRequest c))
        \<and> answer_value now c (edge_items ''children'' (request_items request)) ''cpuCost''
            = Some (Number (cpuRequest c * d * pc))
        \<and> answer_value now c (edge_items ''children'' (request_items request)) ''memoryCost''
            = Some (Number (memoryRequest c * d * pm))
        \<and> answer_value now c (edge_items ''children'' (request_items request)) ''storageCost''
            = None)"
proof -
  note parent = parent_eval [OF assms(5-8), of now _ name]
  note child = child_eval [OF assms(5-7), of now]
  have sent: "calls (snd (RetrievePodMetrics cfg dg seconds name w))
      = calls w1 @ [render_request request]"
    using RetrievePodMetrics_sends [where seconds = seconds, OF assms(1) assms(3)]
    by (simp add: assms(4))
  have p: "variable now n (request_items request) ''durationInHours''
        = Some ((min (now - startTime n) S -
                 (case endTime n of None \<Rightarrow> 0 | Some et \<Rightarrow> now - et)) / 3600)
      \<and> answer_value now n (request_items request) ''cpu'' = Some (Number (cpuRequest n))
      \<and> answer_value now n (request_items request) ''memory'' = Some (Number (memoryRequest n))
      \<and> answer_value now n (request_items request) ''storage''
          = Some (Number (storageRequest n))
      \<and> answer_value now n (request_items request) ''cpuCost''
          = Some (Number (cpuRequest n *
              ((min (now - startTime n) S -
                (case endTime n of None \<Rightarrow> 0 | Some et \<Rightarrow> now - et)) / 3600) * pc))
      \<and> answer_value now n (request_items request) ''memoryCost''
          = Some (Number (memoryRequest n *
              ((min (now - startTime n) S -
                (case endTime n of None \<Rightarrow> 0 | Some et \<Rightarrow> now - et)) / 3600) * pm))
      \<and> answer_value now n (request_items request) ''storageCost''
          = Some (Number (storageRequest n *
              ((min (now - startTime n) S -
                (case endTime n of None \<Rightarrow> 0 | Some et \<Rightarrow> now - et)) / 3600) * ps))"
    by (simp add: variable_def answer_value_def assms(4) parent)
  have c: "variable now c (edge_items ''children'' (request_items request))
          ''durationInHoursChild''
        = Some ((min (now - startTime c) S -
                 (case endTime c of None \<Rightarrow> 0 | Some et \<Rightarrow> now - et)) / 3600)
      \<and> answer_value now c (edge_items ''children'' (request_items request)) ''cpu''
          = Some (Number (cpuRequest c))
      \<and> answer_value now c (edge_items ''children'' (request_items request)) ''memory''
          = Some (Number (memoryRequest c))
      \<and> answer_value now c (edge_items ''children'' (request_items request)) ''cpuCost''
          = Some (Number (cpuRequest c *
              ((min (now - startTime c) S -
                (case endTime c of None \<Rightarrow> 0 | Some et \<Rightarrow> now - et)) / 3600) * pc))
      \<and> answer_value now c (edge_items ''children'' (request_items request)) ''memoryCost''
          = Some (Number (memoryRequest c *
              ((min (now - startTime c) S -
                (case endTime c of None \<Rightarrow> 0 | Some et \<Rightarrow> now - et)) / 3600) * pm))
      \<and> answer_value now c (edge_items ''children'' (request_items request)) ''storageCost''
          = None"
    by (simp add: variable_def answer_value_def assms(4) children_items child)
  show ?thesis
    using sent p c by blast
qed

theorem metrics_costs_witness:
  "''web'' \<noteq> All_const (example_config ''all'')
   \<and> plain ''web''
   \<and> getPricePerResourceForPod (example_config ''all'')
        (answering_dgraph [] [\<lparr>UID = [], Name = [], CPUPrice = 1 / 20, MemoryPrice = 1 / 100\<rparr>])
        ''web'' initial_world
       = (Inr (1 / 20, 1 / 100),
          \<lparr>calls = [getPricePerResourceForPod_query ''web''], logged = []\<rparr>)
   \<and> read_number (Sprintf_f (example_config ''all'') 864000) = Some 864000
   \<and> read_number (FormatFloat_f_11 (example_config ''all'') (1 / 20)) = Some (1 / 20)
   \<and> read_number (FormatFloat_f_11 (example_config ''all'') (1 / 100)) = Some (1 / 100)
   \<and> read_number (DefaultStorageCostPerGBPerHour (example_config ''all''))
       = Some (13888888 / 100000000000)
   \<and> calls (snd (RetrievePodMetrics (example_config ''all'')
        (answering_dgraph [] [\<lparr>UID = [], Name = [], CPUPrice = 1 / 20, MemoryPrice = 1 / 100\<rparr>])
        864000 ''web'' initial_world))
       = [getPricePerResourceForPod_query ''web'',
          render_request (RetrievePodMetrics_request ''web'' ''864000.000000'' ''0.05000000000''
            ''0.01000000000'' ''0.00013888888'')]
   \<and> answer_value 1000000 (example_pod\<lparr>startTime := 100000\<rparr>)
        (request_items (RetrievePodMetrics_request ''web'' ''864000.000000'' ''0.05000000000''
            ''0.01000000000'' ''0.00013888888'')) ''cpuCost'' = Some (Number 24)
   \<and> answer_value 1000000 (example_pod\<lparr>startTime := 100000\<rparr>)
        (request_items (RetrievePodMetrics_request ''web'' ''864000.000000'' ''0.05000000000''
            ''0.01000000000'' ''0.00013888888'')) ''storageCost''
       = Some (Number (2400 * (13888888 / 100000000000)))
   \<and> answer_value 1000000 (example_pod\<lparr>startTime := 100000\<rparr>)
        (edge_items ''children''
          (request_items (RetrievePodMetrics_request ''web'' ''864000.000000'' ''0.05000000000''
            ''0.01000000000'' ''0.00013888888''))) ''memoryCost'' = Some (Number (48 / 5))"
proof -
  let ?cfg = "example_config ''all''"
  let ?dg = "answering_dgraph [] [\<lparr>UID = [], Name = [], CPUPrice = 1 / 20, MemoryPrice = 1 / 100\<rparr>]"
  let ?n = "example_pod\<lparr>startTime := 100000\<rparr>"
  let ?request = "RetrievePodMetrics_request ''web'' ''864000.000000'' ''0.05000000000''
      ''0.01000000000'' ''0.00013888888''"
  have named: "''web'' \<noteq> All_const ?cfg"
    by (simp add: example_config_def)
  have lookup: "getPricePerResourceForPod ?cfg ?dg ''web'' initial_world
      = (Inr (1 / 20, 1 / 100),
         \<lparr>calls = [getPricePerResourceForPod_query ''web''], logged = []\<rparr>)"
    by (simp add: getPricePerResourceForPod_def Let_def answering_dgraph_def call_store_def
        initial_world_def index_pods_def)
  have texts: "Sprintf_f ?cfg 864000 = ''864000.000000''"
    "FormatFloat_f_11 ?cfg (1 / 20) = ''0.05000000000''"
    "FormatFloat_f_11 ?cfg (1 / 100) = ''0.01000000000''"
    "DefaultStorageCostPerGBPerHour ?cfg = ''0.00013888888''"
    by (simp_all add: example_config_def example_FormatFloat_def example_Sprintf_def)
  have numbers: "read_number (Sprintf_f ?cfg 864000) = Some 864000"
    "read_number (FormatFloat_f_11 ?cfg (1 / 20)) = Some (1 / 20)"
    "read_number (FormatFloat_f_11 ?cfg (1 / 100)) = Some (1 / 100)"
    "read_number (DefaultStorageCostPerGBPerHour ?cfg) = Some (13888888 / 100000000000)"
    by (simp_all add: texts read_number_examples)
  have request: "RetrievePodMetrics_request ''web'' (Sprintf_f ?cfg 864000)
      (FormatFloat_f_11 ?cfg (1 / 20)) (FormatFloat_f_11 ?cfg (1 / 100))
      (DefaultStorageCostPerGBPerHour ?cfg) = ?request"
    by (simp only: texts)
  note inst = metrics_costs [where now = 1000000 and n = "?n" and c = "?n" and seconds = 864000,
      OF named plain_web lookup request [symmetric] numbers]
  have node: "startTime example_pod = 500000" "cpuRequest example_pod = 2"
    "memoryRequest example_pod = 4" "storageRequest example_pod = 10"
    "endTime example_pod = None"
    by (simp_all add: example_pod_def)
  obtain d where d: "variable 1000000 ?n (request_items ?request) ''durationInHours'' = Some d"
    "answer_value 1000000 ?n (request_items ?request) ''cpuCost''
       = Some (Number (cpuRequest ?n * d * (1 / 20)))"
    "answer_value 1000000 ?n (request_items ?request) ''storageCost''
       = Some (Number (storageRequest ?n * d * (13888888 / 100000000000)))"
    using inst by blast
  obtain dc where dc: "variable 1000000 ?n (edge_items ''children'' (request_items ?request))
       ''durationInHoursChild'' = Some dc"
    "answer_value 1000000 ?n (edge_items ''children'' (request_items ?request)) ''memoryCost''
       = Some (Number (memoryRequest ?n * dc * (1 / 100)))"
    using inst by blast
  have hours: "variable 1000000 ?n (request_items ?request) ''durationInHours'' = Some 240"
    "variable 1000000 ?n (edge_items ''children'' (request_items ?request))
       ''durationInHoursChild'' = Some 240"
    using parent_eval [OF read_number_examples(1) read_number_examples(4)
        read_number_examples(3) read_number_examples(5), of 1000000 ?n "''web''"]
      child_eval [OF read_number_examples(1) read_number_examples(4)
        read_number_examples(3), of 1000000 ?n]
    by (simp_all add: variable_def children_items node)
  have "d = 240" "dc = 240"
    using d(1) dc(1) hours by simp_all
  then have costs: "answer_value 1000000 ?n (request_items ?request) ''cpuCost''
      = Some (Number 24)"
    "answer_value 1000000 ?n (request_items ?request) ''storageCost''
      = Some (Number (2400 * (13888888 / 100000000000)))"
    "answer_value 1000000 ?n (edge_items ''children'' (request_items ?request)) ''memoryCost''
      = Some (Number (48 / 5))"
    using d(2,3) dc(2) by (simp_all add: node)
  have sent: "calls (snd (RetrievePodMetrics ?cfg ?dg 864000 ''web'' initial_world))
      = [getPricePerResourceForPod_query ''web'', render_request ?request]"
    using inst by simp
  show ?thesis
    using named plain_web lookup numbers sent costs by blast
qed

subsection \<open>The label filter\<close>

lemma set_createFilterFromListOfLabels:
  "set (createFilterFromListOfLabels labels) =
     {(key, val). \<exists>vals. (key, vals) \<in> set labels \<and> val \<in> set vals}"
  by (induction labels rule: createFilterFromListOfLabels.induct) auto

lemma label_filter_holds_iff:
  "label_filter_holds (createFilterFromListOfLabels labels) l \<longleftrightarrow>
     (\<exists>(key, vals) \<in> set labels. label_key l = key \<and> label_value l \<in> set vals)"
  by (auto simp: label_filter_holds_def list_ex_iff set_createFilterFromListOfLabels)

lemma set_podUIDs:
  "set (podUIDs disjuncts graph) =
     {node_uid p | p. p \<in> set graph \<and> isPod p \<and>
        (\<exists>l \<in> set graph. isLabel l \<and> label_filter_holds disjuncts l \<and>
           node_uid l \<in> set (label_edge p))}"
  by (auto simp: podUIDs_def list_ex_iff)

lemma podUIDs_subset: "set (podUIDs disjuncts graph) \<subseteq> node_uid ` set graph"
  by (auto simp: podUIDs_def)

lemma UID_answer:
  "UID ` set (RetrievePodsUIDsByLabelsFilter_answer disjuncts graph) = set (podUIDs disjuncts graph)"
proof -
  have "UID ` set (RetrievePodsUIDsByLabelsFilter_answer disjuncts graph)
      = node_uid ` {p \<in> set graph. node_uid p \<in> set (podUIDs disjuncts graph)}"
    by (simp add: RetrievePodsUIDsByLabelsFilter_answer_def image_image)
  also have "\<dots> = set (podUIDs disjuncts graph)"
    using podUIDs_subset [of disjuncts graph] by blast
  finally show ?thesis .
qed

text \<open>
  C7. For every label mapping, the predicate that \<open>createFilterFromListOfLabels\<close> builds
  holds of a label node exactly when one of the provided key/value pairs is the node's key
  and value: a disjunction of all pairs and nothing else. \<open>RetrievePodsUIDsByLabelsFilter\<close>
  sends one request, whose first block binds the pods reached from the matching label
  nodes to the variable \<open>podUIDs\<close> and whose second block resolves the variable to \<open>uid\<close>
  and \<open>name\<close>. When the store answers that request over a graph, the identifiers
  returned are those of the pods that carry at least one label matching a pair.
\<close>

theorem labels_filter_is_disjunction:
  "ExecuteQuery dg (RetrievePodsUIDsByLabelsFilter_query
                     (filter_text (createFilterFromListOfLabels labels)))
     = Inr (RetrievePodsUIDsByLabelsFilter_answer (createFilterFromListOfLabels labels) graph) \<Longrightarrow>
   (label_filter_holds (createFilterFromListOfLabels labels) l \<longleftrightarrow>
      (\<exists>(key, vals) \<in> set labels. label_key l = key \<and> label_value l \<in> set vals))
   \<and> (\<exists>uids. fst (RetrievePodsUIDsByLabelsFilter filter_text dg labels w) = Inr uids \<and>
        set uids =
          {node_uid p | p. p \<in> set graph \<and> isPod p \<and>
             (\<exists>l \<in> set graph. isLabel l \<and> node_uid l \<in> set (label_edge p) \<and>
                (\<exists>(key, vals) \<in> set labels. label_key l = key \<and> label_value l \<in> set vals))})
   \<and> calls (snd (RetrievePodsUIDsByLabelsFilter filter_text dg labels w)) =
       calls w @ [RetrievePodsUIDsByLabelsFilter_query
                    (filter_text (createFilterFromListOfLabels labels))]
   \<and> prefix (''query {\<newline>'' @ [tab, tab] @ ''var(func: has(isLabel)) @filter('' @
               filter_text (createFilterFromListOfLabels labels) @ '') {\<newline>'' @
               ''            podUIDs as ~label @filter(has(isPod)) {\<newline>'')
        (RetrievePodsUIDsByLabelsFilter_query (filter_text (createFilterFromListOfLabels labels)))
   \<and> suffix ([tab, tab] @ ''pods(func: uid(podUIDs)) {\<newline>'' @
               [tab, tab, tab] @ ''uid\<newline>'' @
               [tab, tab, tab] @ ''name\<newline>'' @
               [tab, tab] @ ''}\<newline>'' @
               [tab] @ ''}'')
        (RetrievePodsUIDsByLabelsFilter_query (filter_text (createFilterFromListOfLabels labels)))"
proof -
  let ?ds = "createFilterFromListOfLabels labels"
  let ?q = "RetrievePodsUIDsByLabelsFilter_query (filter_text ?ds)"
  assume answer: "ExecuteQuery dg ?q = Inr (RetrievePodsUIDsByLabelsFilter_answer ?ds graph)"
  have result: "RetrievePodsUIDsByLabelsFilter filter_text dg labels w =
      (Inr (removeDuplicates (RetrievePodsUIDsByLabelsFilter_answer ?ds graph)), call_store ?q w)"
    using answer by (simp add: RetrievePodsUIDsByLabelsFilter_def Let_def)
  have "set (removeDuplicates (RetrievePodsUIDsByLabelsFilter_answer ?ds graph)) =
      set (podUIDs ?ds graph)"
    by (simp add: removeDuplicates_eq set_first_occurrences UID_answer)
  also have "\<dots> = {node_uid p | p. p \<in> set graph \<and> isPod p \<and>
             (\<exists>l \<in> set graph. isLabel l \<and> node_uid l \<in> set (label_edge p) \<and>
                (\<exists>(key, vals) \<in> set labels. label_key l = key \<and> label_value l \<in> set vals))}"
    unfolding set_podUIDs label_filter_holds_iff by blast
  finally have uids: "set (removeDuplicates (RetrievePodsUIDsByLabelsFilter_answer ?ds graph)) =
      {node_uid p | p. p \<in> set graph \<and> isPod p \<and>
             (\<exists>l \<in> set graph. isLabel l \<and> node_uid l \<in> set (label_edge p) \<and>
                (\<exists>(key, vals) \<in> set labels. label_key l = key \<and> label_value l \<in> set vals))}" .
  have text1: "prefix (''query {\<newline>'' @ [tab, tab] @ ''var(func: has(isLabel)) @filter('' @
               filter_text ?ds @ '') {\<newline>'' @
               ''            podUIDs as ~label @filter(has(isPod)) {\<newline>'') ?q"
    by (simp add: RetrievePodsUIDsByLabelsFilter_query_def)
  have text2: "suffix ([tab, tab] @ ''pods(func: uid(podUIDs)) {\<newline>'' @
               [tab, tab, tab] @ ''uid\<newline>'' @
               [tab, tab, tab] @ ''name\<newline>'' @
               [tab, tab] @ ''}\<newline>'' @
               [tab] @ ''}'') ?q"
    unfolding RetrievePodsUIDsByLabelsFilter_query_def suffix_def
    by (rule exI [of _ "''query {\<newline>'' @
     [tab, tab] @ ''var(func: has(isLabel)) @filter('' @ filter_text ?ds @ '') {\<newline>'' @
     ''            podUIDs as ~label @filter(has(isPod)) {\<newline>'' @
     [tab, tab, tab, tab] @ ''name\<newline>'' @
     [tab, tab, tab] @ ''}\<newline>'' @
     [tab, tab] @ ''}\<newline>''"]) simp
  show ?thesis
    using uids text1 text2
    by (simp add: result label_filter_holds_iff call_store_def)
qed

lemma example_answer:
  "RetrievePodsUIDsByLabelsFilter_answer
     (createFilterFromListOfLabels [(''tier'', [''frontend'', ''backend'']), (''env'', [''prod''])])
     example_graph
   = [\<lparr>UID = ''0x1'', Name = ''web'', CPUPrice = 0, MemoryPrice = 0\<rparr>,
      \<lparr>UID = ''0x2'', Name = ''batch'', CPUPrice = 0, MemoryPrice = 0\<rparr>,
      \<lparr>UID = ''0x4'', Name = ''api'', CPUPrice = 0, MemoryPrice = 0\<rparr>]"
  by (simp add: RetrievePodsUIDsByLabelsFilter_answer_def podUIDs_def label_filter_holds_def
      example_graph_def example_label_def labelled_pod_def example_pod_def)

lemma RetrievePodsUIDsByLabelsFilter_answered:
  "ExecuteQuery dg (RetrievePodsUIDsByLabelsFilter_query
                     (filter_text (createFilterFromListOfLabels labels))) = Inr Pods \<Longrightarrow>
   RetrievePodsUIDsByLabelsFilter filter_text dg labels w =
     (Inr (removeDuplicates Pods),
      call_store (RetrievePodsUIDsByLabelsFilter_query
                    (filter_text (createFilterFromListOfLabels labels))) w)"
  by (simp add: RetrievePodsUIDsByLabelsFilter_def Let_def)

theorem labels_filter_is_disjunction_witness:
  "ExecuteQuery
     (answering_dgraph []
        (RetrievePodsUIDsByLabelsFilter_answer
           (createFilterFromListOfLabels
              [(''tier'', [''frontend'', ''backend'']), (''env'', [''prod''])])
           example_graph))
     (RetrievePodsUIDsByLabelsFilter_query
        (example_filter_text
           (createFilterFromListOfLabels
              [(''tier'', [''frontend'', ''backend'']), (''env'', [''prod''])])))
   = Inr (RetrievePodsUIDsByLabelsFilter_answer
           (createFilterFromListOfLabels
              [(''tier'', [''frontend'', ''backend'']), (''env'', [''prod''])])
           example_graph)
   \<and> fst (RetrievePodsUIDsByLabelsFilter example_filter_text
        (answering_dgraph []
           (RetrievePodsUIDsByLabelsFilter_answer
              (createFilterFromListOfLabels
                 [(''tier'', [''frontend'', ''backend'']), (''env'', [''prod''])])
              example_graph))
        [(''tier'', [''frontend'', ''backend'']), (''env'', [''prod''])] initial_world)
     = Inr [''0x1'', ''0x2'', ''0x4'']
   \<and> label_filter_holds
        (createFilterFromListOfLabels
           [(''tier'', [''frontend'', ''backend'']), (''env'', [''prod''])])
        (example_label ''0xc'' ''env'' ''prod'')
   \<and> \<not> label_filter_holds
        (createFilterFromListOfLabels
           [(''tier'', [''frontend'', ''backend'']), (''env'', [''prod''])])
        (example_label ''0xd'' ''env'' ''dev'')"
proof -
  let ?labels = "[(''tier'', [''frontend'', ''backend'']), (''env'', [''prod''])]"
  let ?dg = "answering_dgraph []
        (RetrievePodsUIDsByLabelsFilter_answer (createFilterFromListOfLabels ?labels) example_graph)"
  have h: "ExecuteQuery ?dg
      (RetrievePodsUIDsByLabelsFilter_query
         (example_filter_text (createFilterFromListOfLabels ?labels)))
    = Inr (RetrievePodsUIDsByLabelsFilter_answer (createFilterFromListOfLabels ?labels)
             example_graph)"
    by (simp add: answering_dgraph_def)
  have r: "fst (RetrievePodsUIDsByLabelsFilter example_filter_text ?dg ?labels initial_world)
      = Inr [''0x1'', ''0x2'', ''0x4'']"
  proof -
    have rd: "removeDuplicates
        [\<lparr>UID = ''0x1'', Name = ''web'', CPUPrice = 0, MemoryPrice = 0\<rparr>,
         \<lparr>UID = ''0x2'', Name = ''batch'', CPUPrice = 0, MemoryPrice = 0\<rparr>,
         \<lparr>UID = ''0x4'', Name = ''api'', CPUPrice = 0, MemoryPrice = 0\<rparr>]
      = [''0x1'', ''0x2'', ''0x4'']"
      by (simp add: removeDuplicates_def)
    show ?thesis
      by (simp only: RetrievePodsUIDsByLabelsFilter_answered
          [where filter_text = example_filter_text and labels = "?labels", OF h] fst_conv)
        (simp only: example_answer rd)
  qed
  have k: "label_key (example_label ''0xc'' ''env'' ''prod'') = ''env''"
    "label_value (example_label ''0xc'' ''env'' ''prod'') = ''prod''"
    "label_key (example_label ''0xd'' ''env'' ''dev'') = ''env''"
    "label_value (example_label ''0xd'' ''env'' ''dev'') = ''dev''"
    by (simp_all add: example_label_def)
  show ?thesis
    using labels_filter_is_disjunction [where filter_text = example_filter_text
        and labels = "?labels" and l = "example_label ''0xc'' ''env'' ''prod''"
        and w = initial_world, OF h]
      labels_filter_is_disjunction [where filter_text = example_filter_text
        and labels = "?labels" and l = "example_label ''0xd'' ''env'' ''dev''"
        and w = initial_world, OF h] h r
    by (simp add: k)
qed

end
